theory Spec2Isabelle
  imports Main
begin

section \<open>JavaScript strings\<close>

text \<open>
  A JavaScript string is modelled as a HOL \<open>string\<close>: a list of characters with the codes
  0 to 255, that is the code units of the Latin-1 range. Numbers are modelled as integers
  (\<open>int\<close>); \<open>String(n)\<close> and template interpolation of a number print its decimal digits.
\<close>

abbreviation bsl :: char where "bsl \<equiv> CHR 0x5C"
abbreviation squote :: char where "squote \<equiv> CHR 0x27"
abbreviation dquote :: char where "dquote \<equiv> CHR 0x22"
abbreviation backtick :: char where "backtick \<equiv> CHR 0x60"
abbreviation newline :: char where "newline \<equiv> CHR 0x0A"

text \<open>
  White space as \<open>String.prototype.trim\<close> and the regular expression class \<open>\s\<close> see it:
  tab, line feed, vertical tab, form feed, carriage return, space and no-break space.
\<close>

definition isWhiteSpace :: "char \<Rightarrow> bool" where
  "isWhiteSpace c =
     (c \<in> set [CHR 0x09, CHR 0x0A, CHR 0x0B, CHR 0x0C, CHR 0x0D, CHR 0x20, CHR 0xA0])"

definition isDigit :: "char \<Rightarrow> bool" where
  "isDigit c = (48 \<le> (of_char c :: nat) \<and> (of_char c :: nat) \<le> 57)"

text \<open>The class \<open>\w\<close>, which is \<open>[A-Za-z0-9_]\<close>.\<close>

definition isWordChar :: "char \<Rightarrow> bool" where
  "isWordChar c = (let n = (of_char c :: nat) in
     (97 \<le> n \<and> n \<le> 122) \<or> (65 \<le> n \<and> n \<le> 90) \<or> (48 \<le> n \<and> n \<le> 57) \<or> n = 95)"

definition trim :: "string \<Rightarrow> string" where
  "trim s = rev (dropWhile isWhiteSpace (rev (dropWhile isWhiteSpace s)))"

text \<open>
  \<open>toLowerCase\<close>: the letters A to Z and the Latin-1 capitals 0xC0 to 0xDE (without the
  multiplication sign 0xD7) move up by 32.
\<close>

definition lower_char :: "char \<Rightarrow> char" where
  "lower_char c = (let n = (of_char c :: nat) in
     if (65 \<le> n \<and> n \<le> 90) \<or> (192 \<le> n \<and> n \<le> 222 \<and> n \<noteq> 215) then char_of (n + 32) else c)"

definition toLowerCase :: "string \<Rightarrow> string" where
  "toLowerCase s = map lower_char s"

text \<open>
  \<open>toUpperCase\<close>: the letters a to z and the Latin-1 small letters 0xE0 to 0xFE (without
  the division sign 0xF7) move down by 32, and the sharp s (0xDF) becomes the two letters
  SS. The upper-case forms of 0xB5 and 0xFF lie outside Latin-1; the model leaves these two
  characters as they are, which no comparison with an ASCII keyword can tell apart.
\<close>

definition upper_char :: "char \<Rightarrow> string" where
  "upper_char c = (let n = (of_char c :: nat) in
     if n = 223 then ''SS''
     else if (97 \<le> n \<and> n \<le> 122) \<or> (224 \<le> n \<and> n \<le> 254 \<and> n \<noteq> 247) then [char_of (n - 32)]
     else [c])"

definition toUpperCase :: "string \<Rightarrow> string" where
  "toUpperCase s = concat (map upper_char s)"

definition startsWith :: "string \<Rightarrow> string \<Rightarrow> bool" where
  "startsWith s p = (take (length p) s = p)"

definition endsWith :: "string \<Rightarrow> string \<Rightarrow> bool" where
  "endsWith s p = startsWith (rev s) (rev p)"

fun includes_str :: "string \<Rightarrow> string \<Rightarrow> bool" where
  "includes_str [] sub = (sub = [])"
| "includes_str (c # cs) sub = (startsWith (c # cs) sub \<or> includes_str cs sub)"

text \<open>\<open>s.split(d)\<close> for a separator of one character.\<close>

fun split_char :: "char \<Rightarrow> string \<Rightarrow> string list" where
  "split_char d [] = [[]]"
| "split_char d (c # cs) =
     (if c = d then [] # split_char d cs
      else (case split_char d cs of [] \<Rightarrow> [[c]] | w # ws \<Rightarrow> (c # w) # ws))"

text \<open>\<open>xs.join(sep)\<close>\<close>

fun join :: "string \<Rightarrow> string list \<Rightarrow> string" where
  "join sep [] = []"
| "join sep [x] = x"
| "join sep (x # y # ys) = x @ sep @ join sep (y # ys)"

definition digit_char :: "nat \<Rightarrow> char" where
  "digit_char d = ''0123456789'' ! d"

fun show_nat :: "nat \<Rightarrow> string" where
  "show_nat n = (if n < 10 then [digit_char n] else show_nat (n div 10) @ [digit_char (n mod 10)])"

declare show_nat.simps [simp del]

definition show_int :: "int \<Rightarrow> string" where
  "show_int i = (if i < 0 then CHR ''-'' # show_nat (nat (- i)) else show_nat (nat i))"


section \<open>Regular expressions\<close>

text \<open>
  The regular expression literals of the source are written as terms of \<open>rx\<close>. An \<open>atom\<close>
  matches one character: \<open>Chr c\<close> a literal, \<open>Dot\<close> the pattern \<open>.\<close> (anything but a line
  terminator), \<open>Space\<close> \<open>\s\<close>, \<open>Digit\<close> \<open>\d\<close>, \<open>WordCh\<close> \<open>\w\<close>, \<open>Any\<close> the class
  \<open>[\s\S]\<close>, \<open>OneOf\<close> and \<open>NoneOf\<close> a class \<open>[...]\<close> and \<open>[^...]\<close>. Quantifiers are
  applied to atoms, as everywhere in the source but for one optional group.
\<close>

datatype atom = Chr char | Dot | Space | Digit | WordCh | Any | OneOf "atom list" | NoneOf "atom list"

datatype rx = Eps | A atom | Str string | Seq rx rx | Alt rx rx
  | Star atom | StarLazy atom | Plus atom | PlusLazy atom | Opt rx
  | Bol | Eol | WordB

text \<open>
  The canonical form under the flag \<open>i\<close> (without the flag \<open>u\<close>): the upper-case letter when
  that is one code unit and does not turn a non-ASCII character into an ASCII one.
\<close>

definition canonicalize :: "char \<Rightarrow> char" where
  "canonicalize c = (let n = (of_char c :: nat) in
     if (97 \<le> n \<and> n \<le> 122) \<or> (224 \<le> n \<and> n \<le> 254 \<and> n \<noteq> 247) then char_of (n - 32) else c)"

text \<open>The first argument of the matching functions says whether the flag \<open>i\<close> is set.\<close>

fun atom_ok :: "bool \<Rightarrow> atom \<Rightarrow> char \<Rightarrow> bool" where
  "atom_ok ci (Chr c) x = (if ci then canonicalize x = canonicalize c else x = c)"
| "atom_ok ci Dot x = (x \<noteq> CHR 0x0A \<and> x \<noteq> CHR 0x0D)"
| "atom_ok ci Space x = isWhiteSpace x"
| "atom_ok ci Digit x = isDigit x"
| "atom_ok ci WordCh x = isWordChar x"
| "atom_ok ci Any x = True"
| "atom_ok ci (OneOf as) x = (\<exists>a \<in> set as. atom_ok ci a x)"
| "atom_ok ci (NoneOf as) x = (\<not> (\<exists>a \<in> set as. atom_ok ci a x))"

text \<open>
  A position in the subject: the character before it (\<open>None\<close> at the start of the input)
  and the rest of the input. \<open>rmatch ci r q\<close> lists the positions at which a match of \<open>r\<close>
  begun at \<open>q\<close> can end, in the order in which a backtracking matcher tries them: a greedy
  quantifier takes the longest run first, a lazy one the shortest, an alternative is tried
  from left to right. The head of the list is the match the engine reports.
\<close>

type_synonym pos = "char option \<times> string"

fun step_atom :: "bool \<Rightarrow> atom \<Rightarrow> pos \<Rightarrow> pos list" where
  "step_atom ci a (p, []) = []"
| "step_atom ci a (p, c # cs) = (if atom_ok ci a c then [(Some c, cs)] else [])"

fun step_str :: "bool \<Rightarrow> string \<Rightarrow> pos \<Rightarrow> pos list" where
  "step_str ci [] q = [q]"
| "step_str ci (c # cs) (p, []) = []"
| "step_str ci (c # cs) (p, x # xs) =
     (if atom_ok ci (Chr c) x then step_str ci cs (Some x, xs) else [])"

fun star_greedy :: "bool \<Rightarrow> atom \<Rightarrow> pos \<Rightarrow> pos list" where
  "star_greedy ci a (p, []) = [(p, [])]"
| "star_greedy ci a (p, c # cs) =
     (if atom_ok ci a c then star_greedy ci a (Some c, cs) @ [(p, c # cs)] else [(p, c # cs)])"

fun star_lazy :: "bool \<Rightarrow> atom \<Rightarrow> pos \<Rightarrow> pos list" where
  "star_lazy ci a (p, []) = [(p, [])]"
| "star_lazy ci a (p, c # cs) =
     (if atom_ok ci a c then (p, c # cs) # star_lazy ci a (Some c, cs) else [(p, c # cs)])"

definition at_word_boundary :: "pos \<Rightarrow> bool" where
  "at_word_boundary q =
     ((case fst q of None \<Rightarrow> False | Some c \<Rightarrow> isWordChar c)
      \<noteq> (case snd q of [] \<Rightarrow> False | c # _ \<Rightarrow> isWordChar c))"

fun rmatch :: "bool \<Rightarrow> rx \<Rightarrow> pos \<Rightarrow> pos list" where
  "rmatch ci Eps q = [q]"
| "rmatch ci (A a) q = step_atom ci a q"
| "rmatch ci (Str s) q = step_str ci s q"
| "rmatch ci (Seq r1 r2) q = concat (map (rmatch ci r2) (rmatch ci r1 q))"
| "rmatch ci (Alt r1 r2) q = rmatch ci r1 q @ rmatch ci r2 q"
| "rmatch ci (Star a) q = star_greedy ci a q"
| "rmatch ci (StarLazy a) q = star_lazy ci a q"
| "rmatch ci (Plus a) q = concat (map (star_greedy ci a) (step_atom ci a q))"
| "rmatch ci (PlusLazy a) q = concat (map (star_lazy ci a) (step_atom ci a q))"
| "rmatch ci (Opt r) q = rmatch ci r q @ [q]"
| "rmatch ci Bol q = (if fst q = None then [q] else [])"
| "rmatch ci Eol q = (if snd q = [] then [q] else [])"
| "rmatch ci WordB q = (if at_word_boundary q then [q] else [])"

text \<open>Sequences and alternatives of more than two parts.\<close>

fun cat :: "rx list \<Rightarrow> rx" where
  "cat [] = Eps"
| "cat [r] = r"
| "cat (r # rs) = Seq r (cat rs)"

fun alts :: "rx list \<Rightarrow> rx" where
  "alts [] = Eps"
| "alts [r] = r"
| "alts (r # rs) = Alt r (alts rs)"

text \<open>\<open>regex.test(s)\<close>: is there a match starting at some position of \<open>s\<close>?\<close>

fun rsearch :: "bool \<Rightarrow> rx \<Rightarrow> pos \<Rightarrow> bool" where
  "rsearch ci r (p, []) = (rmatch ci r (p, []) \<noteq> [])"
| "rsearch ci r (p, c # cs) = (rmatch ci r (p, c # cs) \<noteq> [] \<or> rsearch ci r (Some c, cs))"

definition test :: "bool \<Rightarrow> rx \<Rightarrow> string \<Rightarrow> bool" where
  "test ci r s = rsearch ci r (None, s)"

text \<open>
  The first match, from the left: the text before it and the text after it.
\<close>

fun rfind :: "bool \<Rightarrow> rx \<Rightarrow> pos \<Rightarrow> (string \<times> string) option" where
  "rfind ci r (p, []) =
     (case rmatch ci r (p, []) of [] \<Rightarrow> None | q # _ \<Rightarrow> Some ([], snd q))"
| "rfind ci r (p, c # cs) =
     (case rmatch ci r (p, c # cs) of
        q # _ \<Rightarrow> Some ([], snd q)
      | [] \<Rightarrow> map_option (\<lambda>ba. (c # fst ba, snd ba)) (rfind ci r (Some c, cs)))"

text \<open>\<open>s.replace(regex, repl)\<close> for a regular expression without the flag \<open>g\<close>.\<close>

definition replace_first :: "bool \<Rightarrow> rx \<Rightarrow> string \<Rightarrow> string \<Rightarrow> string" where
  "replace_first ci r repl s =
     (case rfind ci r (None, s) of None \<Rightarrow> s | Some ba \<Rightarrow> fst ba @ repl @ snd ba)"

text \<open>
  With the flag \<open>g\<close> the search resumes where the last match ended (one character further
  after an empty match). The counter says how many characters of the input still belong
  to the last match.
\<close>

fun replace_all_from :: "bool \<Rightarrow> rx \<Rightarrow> string \<Rightarrow> nat \<Rightarrow> pos \<Rightarrow> string" where
  "replace_all_from ci r repl k (p, []) =
     (if k = 0 \<and> rmatch ci r (p, []) \<noteq> [] then repl else [])"
| "replace_all_from ci r repl k (p, c # cs) =
     (if k > 0 then replace_all_from ci r repl (k - 1) (Some c, cs)
      else (case rmatch ci r (p, c # cs) of
              [] \<Rightarrow> c # replace_all_from ci r repl 0 (Some c, cs)
            | q # _ \<Rightarrow>
                (if length (snd q) = Suc (length cs)
                 then repl @ c # replace_all_from ci r repl 0 (Some c, cs)
                 else repl @ replace_all_from ci r repl (length cs - length (snd q)) (Some c, cs))))"

definition replace_all :: "bool \<Rightarrow> rx \<Rightarrow> string \<Rightarrow> string \<Rightarrow> string" where
  "replace_all ci r repl s = replace_all_from ci r repl 0 (None, s)"

text \<open>\<open>(s.match(regex) || []).length\<close> for a regular expression with the flag \<open>g\<close>.\<close>

fun count_from :: "bool \<Rightarrow> rx \<Rightarrow> nat \<Rightarrow> pos \<Rightarrow> nat" where
  "count_from ci r k (p, []) = (if k = 0 \<and> rmatch ci r (p, []) \<noteq> [] then 1 else 0)"
| "count_from ci r k (p, c # cs) =
     (if k > 0 then count_from ci r (k - 1) (Some c, cs)
      else (case rmatch ci r (p, c # cs) of
              [] \<Rightarrow> count_from ci r 0 (Some c, cs)
            | q # _ \<Rightarrow>
                (if length (snd q) = Suc (length cs)
                 then Suc (count_from ci r 0 (Some c, cs))
                 else Suc (count_from ci r (length cs - length (snd q)) (Some c, cs)))))"

definition match_count :: "bool \<Rightarrow> rx \<Rightarrow> string \<Rightarrow> nat" where
  "match_count ci r s = count_from ci r 0 (None, s)"

text \<open>
  A pattern without the assertions \<open>^\<close>, \<open>$\<close> and \<open>\b\<close> matches a piece of text
  wherever the piece stands.
\<close>

fun ctx_free :: "rx \<Rightarrow> bool" where
  "ctx_free (Seq r1 r2) = (ctx_free r1 \<and> ctx_free r2)"
| "ctx_free (Alt r1 r2) = (ctx_free r1 \<and> ctx_free r2)"
| "ctx_free (Opt r) = ctx_free r"
| "ctx_free Bol = False"
| "ctx_free Eol = False"
| "ctx_free WordB = False"
| "ctx_free r = True"

text \<open>
  Capture groups. A pattern is given as the list of its consecutive parts;
  \<open>rparts\<close> lists, in the order of the matcher, the texts matched by the parts together
  with the position at which the whole match ends. \<open>find_parts\<close> is \<open>s.match(regex)\<close> for
  a pattern without the flag \<open>g\<close>: the parts of the first match. \<open>find_parts_all\<close> is
  \<open>s.matchAll(regex)\<close>: the parts of every match, the search resuming where the last
  match ended.
\<close>

fun rparts :: "bool \<Rightarrow> rx list \<Rightarrow> pos \<Rightarrow> (string list \<times> pos) list" where
  "rparts ci [] q = [([], q)]"
| "rparts ci (r # rs) q =
     concat (map (\<lambda>q1. map (\<lambda>gq. (take (length (snd q) - length (snd q1)) (snd q) # fst gq, snd gq))
                            (rparts ci rs q1))
                 (rmatch ci r q))"

fun find_parts_from :: "bool \<Rightarrow> rx list \<Rightarrow> pos \<Rightarrow> string list option" where
  "find_parts_from ci rs (p, []) =
     (case rparts ci rs (p, []) of [] \<Rightarrow> None | g # _ \<Rightarrow> Some (fst g))"
| "find_parts_from ci rs (p, c # cs) =
     (case rparts ci rs (p, c # cs) of
        g # _ \<Rightarrow> Some (fst g)
      | [] \<Rightarrow> find_parts_from ci rs (Some c, cs))"

definition find_parts :: "bool \<Rightarrow> rx list \<Rightarrow> string \<Rightarrow> string list option" where
  "find_parts ci rs s = find_parts_from ci rs (None, s)"

fun find_parts_all_from :: "bool \<Rightarrow> rx list \<Rightarrow> nat \<Rightarrow> pos \<Rightarrow> string list list" where
  "find_parts_all_from ci rs k (p, []) =
     (if k = 0 then (case rparts ci rs (p, []) of [] \<Rightarrow> [] | g # _ \<Rightarrow> [fst g]) else [])"
| "find_parts_all_from ci rs k (p, c # cs) =
     (if k > 0 then find_parts_all_from ci rs (k - 1) (Some c, cs)
      else (case rparts ci rs (p, c # cs) of
              [] \<Rightarrow> find_parts_all_from ci rs 0 (Some c, cs)
            | g # _ \<Rightarrow>
                (if length (snd (snd g)) = Suc (length cs)
                 then fst g # find_parts_all_from ci rs 0 (Some c, cs)
                 else fst g # find_parts_all_from ci rs (length cs - length (snd (snd g))) (Some c, cs))))"

definition find_parts_all :: "bool \<Rightarrow> rx list \<Rightarrow> string \<Rightarrow> string list list" where
  "find_parts_all ci rs s = find_parts_all_from ci rs 0 (None, s)"

section \<open>Query cache (lib/query-cache.ts, class QueryCache)\<close>

subsection \<open>Parameter values and \<open>JSON.stringify\<close>\<close>

text \<open>
  The parameter of \<open>get\<close> and \<open>set\<close> has the type \<open>any\<close>. The model takes plain data:
  \<open>undefined\<close> (also for a parameter that is not passed), \<open>null\<close>, booleans, integers,
  strings, arrays and objects, an object being the list of its properties in the order
  in which \<open>JSON.stringify\<close> enumerates them.
\<close>

datatype json = JUndefined | JNull | JBool bool | JNum int | JStr string
  | JArr "json list" | JObj "(string \<times> json) list"

text \<open>The test \<open>params ? ... : ...\<close>.\<close>

fun truthy :: "json \<Rightarrow> bool" where
  "truthy JUndefined = False"
| "truthy JNull = False"
| "truthy (JBool b) = b"
| "truthy (JNum n) = (n \<noteq> 0)"
| "truthy (JStr s) = (s \<noteq> [])"
| "truthy (JArr xs) = True"
| "truthy (JObj kvs) = True"

definition hex_char :: "nat \<Rightarrow> char" where
  "hex_char d = ''0123456789abcdef'' ! d"

definition quote_char :: "char \<Rightarrow> string" where
  "quote_char c =
     (if c = dquote then [bsl, dquote]
      else if c = bsl then [bsl, bsl]
      else if c = CHR 0x08 then [bsl, CHR ''b'']
      else if c = CHR 0x0C then [bsl, CHR ''f'']
      else if c = CHR 0x0A then [bsl, CHR ''n'']
      else if c = CHR 0x0D then [bsl, CHR ''r'']
      else if c = CHR 0x09 then [bsl, CHR ''t'']
      else if (of_char c :: nat) < 32
        then [bsl, CHR ''u'', CHR ''0'', CHR ''0'',
              hex_char ((of_char c :: nat) div 16), hex_char ((of_char c :: nat) mod 16)]
      else [c])"

definition quote :: "string \<Rightarrow> string" where
  "quote s = [dquote] @ concat (map quote_char s) @ [dquote]"

text \<open>
  \<open>JSON.stringify\<close> of a value that is not \<open>undefined\<close>: an array prints \<open>undefined\<close>
  elements as \<open>null\<close>, an object leaves out the properties whose value is \<open>undefined\<close>.
\<close>

fun stringify :: "json \<Rightarrow> string" where
  "stringify JUndefined = []"
| "stringify JNull = ''null''"
| "stringify (JBool b) = (if b then ''true'' else ''false'')"
| "stringify (JNum n) = show_int n"
| "stringify (JStr s) = quote s"
| "stringify (JArr xs) =
     ''['' @ join '','' (map (\<lambda>x. if x = JUndefined then ''null'' else stringify x) xs) @ '']''"
| "stringify (JObj kvs) =
     ''{'' @ join '',''
        (map (\<lambda>kv. quote (fst kv) @ '':'' @ stringify (snd kv))
           (filter (\<lambda>kv. snd kv \<noteq> JUndefined) kvs)) @ ''}''"

subsection \<open>The cache\<close>

text \<open>
  The \<open>Map\<close> of the cache is a list of pairs of a key and an entry, in insertion order:
  \<open>Map.set\<close> replaces the entry of a key that is present where it stands and appends a
  new key at the end, \<open>Map.delete\<close> removes the key, and \<open>keys().next().value\<close> is the key
  of the first pair. \<open>Date.now()\<close> is the argument \<open>now\<close>.
\<close>

record 'a CacheEntry =
  data :: 'a
  timestamp :: int
  ttl :: int
  hits :: int

record 'a QueryCache =
  cache :: "(string \<times> 'a CacheEntry) list"
  maxSize :: int
  defaultTTL :: int

definition new_QueryCache :: "int \<Rightarrow> int \<Rightarrow> 'a QueryCache" where
  "new_QueryCache ms dt = \<lparr>cache = [], maxSize = ms, defaultTTL = dt\<rparr>"

text \<open>The singleton \<open>queryCache = new QueryCache()\<close> with the default arguments.\<close>

definition queryCache0 :: "'a QueryCache" where
  "queryCache0 = new_QueryCache 1000 (5 * 60 * 1000)"

fun map_set :: "string \<Rightarrow> 'v \<Rightarrow> (string \<times> 'v) list \<Rightarrow> (string \<times> 'v) list" where
  "map_set k v [] = [(k, v)]"
| "map_set k v (p # ps) = (if fst p = k then (k, v) # ps else p # map_set k v ps)"

definition map_delete :: "string \<Rightarrow> (string \<times> 'v) list \<Rightarrow> (string \<times> 'v) list" where
  "map_delete k m = filter (\<lambda>p. fst p \<noteq> k) m"

text \<open>
  \<open>generateKey\<close>, with its two local constants \<open>normalized\<close> and \<open>paramsKey\<close> as
  functions of the query and of the parameter.
\<close>

definition normalized :: "string \<Rightarrow> string" where
  "normalized query = replace_all False (Plus Space) '' '' (toLowerCase (trim query))"

definition paramsKey :: "json \<Rightarrow> string" where
  "paramsKey params = (if truthy params then stringify params else [])"

definition generateKey :: "string \<Rightarrow> json \<Rightarrow> string" where
  "generateKey query params = normalized query @ '':'' @ paramsKey params"

text \<open>
  \<open>get\<close> returns \<open>null\<close> (\<open>None\<close>) or the object \<open>{data, hit: true}\<close>, here the pair of
  the data and the flag, together with the cache after the call.
\<close>

definition get :: "int \<Rightarrow> string \<Rightarrow> json \<Rightarrow> 'a QueryCache \<Rightarrow> ('a \<times> bool) option \<times> 'a QueryCache" where
  "get now query params c =
     (let key = generateKey query params in
      case map_of (cache c) key of
        None \<Rightarrow> (None, c)
      | Some entry \<Rightarrow>
          (let age = now - timestamp entry in
           if age > ttl entry then (None, c\<lparr>cache := map_delete key (cache c)\<rparr>)
           else (Some (data entry, True),
                 c\<lparr>cache := map_set key (entry\<lparr>hits := hits entry + 1\<rparr>) (cache c)\<rparr>)))"

text \<open>
  \<open>set\<close>: the optional \<open>ttl\<close> is \<open>None\<close> when it is not passed; \<open>ttl || this.defaultTTL\<close>
  also replaces a \<open>ttl\<close> of 0 by the default. The guard \<open>if (oldestKey)\<close> skips the
  eviction when the map is empty (and for an empty key).
\<close>

definition evict_oldest :: "(string \<times> 'v) list \<Rightarrow> (string \<times> 'v) list" where
  "evict_oldest m = (case m of [] \<Rightarrow> [] | p # ps \<Rightarrow> if fst p \<noteq> [] then map_delete (fst p) m else m)"

definition set_entry :: "int \<Rightarrow> string \<Rightarrow> 'a \<Rightarrow> json \<Rightarrow> int option \<Rightarrow> 'a QueryCache \<Rightarrow> 'a QueryCache" where
  "set_entry now query d params ttl_arg c =
     (let key = generateKey query params;
          m = (if int (length (cache c)) \<ge> maxSize c then evict_oldest (cache c) else cache c)
      in c\<lparr>cache := map_set key
              \<lparr>data = d, timestamp = now,
               ttl = (case ttl_arg of None \<Rightarrow> defaultTTL c
                      | Some t \<Rightarrow> if t \<noteq> 0 then t else defaultTTL c),
               hits = 0\<rparr> m\<rparr>)"







text \<open>
  \<open>getStats\<close>: the size, the capacity and the sum of the hit counters. The two ratios
  \<open>avgHitsPerEntry\<close> and \<open>utilizationPercent\<close> are floating-point quotients of these
  numbers and are left out.
\<close>

record CacheStats =
  stats_size :: int
  stats_maxSize :: int
  stats_totalHits :: int

definition getStats :: "'a QueryCache \<Rightarrow> CacheStats" where
  "getStats c = \<lparr>stats_size = int (length (cache c)), stats_maxSize = maxSize c,
                 stats_totalHits = sum_list (map (\<lambda>p. hits (snd p)) (cache c))\<rparr>"

definition expired :: "int \<Rightarrow> 'a CacheEntry \<Rightarrow> bool" where
  "expired now entry = (now - timestamp entry > ttl entry)"

definition cleanup :: "int \<Rightarrow> 'a QueryCache \<Rightarrow> nat \<times> 'a QueryCache" where
  "cleanup now c =
     (length (filter (\<lambda>p. expired now (snd p)) (cache c)),
      c\<lparr>cache := filter (\<lambda>p. \<not> expired now (snd p)) (cache c)\<rparr>)"

text \<open>
  The keys of a cache built by the operations are distinct and, as every key holds a
  colon, not empty.
\<close>

definition wf_cache :: "'a QueryCache \<Rightarrow> bool" where
  "wf_cache c = (distinct (map fst (cache c)) \<and> [] \<notin> set (map fst (cache c)))"

section \<open>Rate limiter (lib/query-security.ts, class RateLimiter)\<close>

text \<open>
  The limiter keeps, per identifier, the array of the times at which a request was
  admitted. \<open>Date.now()\<close> is read once per call and is passed to the model as the
  argument \<open>now\<close> (milliseconds, an integer). The JavaScript \<open>Map\<close> is a partial
  function; every method returns its value together with the limiter after the call, so that
  what a call stores is visible.
\<close>

record rate_limiter =
  requests :: "string \<rightharpoonup> int list"
  maxRequests :: int
  windowMs :: int

definition new_RateLimiter :: "int \<Rightarrow> int \<Rightarrow> rate_limiter" where
  "new_RateLimiter mr w = \<lparr>requests = Map.empty, maxRequests = mr, windowMs = w\<rparr>"

text \<open>\<open>this.requests.get(identifier) || []\<close>\<close>

definition userRequests :: "rate_limiter \<Rightarrow> string \<Rightarrow> int list" where
  "userRequests rl identifier = (case requests rl identifier of None \<Rightarrow> [] | Some ts \<Rightarrow> ts)"

text \<open>\<open>userRequests.filter((timestamp) => now - timestamp < this.windowMs)\<close>\<close>

definition validRequests :: "rate_limiter \<Rightarrow> int \<Rightarrow> string \<Rightarrow> int list" where
  "validRequests rl now identifier =
     filter (\<lambda>timestamp. now - timestamp < windowMs rl) (userRequests rl identifier)"

definition isAllowed :: "int \<Rightarrow> string \<Rightarrow> rate_limiter \<Rightarrow> bool \<times> rate_limiter" where
  "isAllowed now identifier rl =
     (let valid = validRequests rl now identifier in
      if int (length valid) \<ge> maxRequests rl then (False, rl)
      else (True, rl\<lparr>requests := (requests rl)(identifier \<mapsto> valid @ [now])\<rparr>))"

definition getRemainingRequests :: "int \<Rightarrow> string \<Rightarrow> rate_limiter \<Rightarrow> int \<times> rate_limiter" where
  "getRemainingRequests now identifier rl =
     (max 0 (maxRequests rl - int (length (validRequests rl now identifier))), rl)"

definition reset :: "string \<Rightarrow> rate_limiter \<Rightarrow> rate_limiter" where
  "reset identifier rl = rl\<lparr>requests := (requests rl)(identifier := None)\<rparr>"

text \<open>Consecutive calls of \<open>isAllowed\<close> for one identifier, at the given times.\<close>

fun isAllowed_calls :: "int list \<Rightarrow> string \<Rightarrow> rate_limiter \<Rightarrow> bool list \<times> rate_limiter" where
  "isAllowed_calls [] identifier rl = ([], rl)"
| "isAllowed_calls (t # ts) identifier rl =
     (case isAllowed t identifier rl of
        (b, rl') \<Rightarrow> (case isAllowed_calls ts identifier rl' of (bs, rl'') \<Rightarrow> (b # bs, rl'')))"

section \<open>Security validator (lib/query-security.ts)\<close>

record SecurityCheckResult =
  safe :: bool
  errors :: "string list"
  warnings :: "string list"

text \<open>
  The dangerous patterns of \<open>detectSQLInjection\<close>, all with the flag \<open>i\<close>. Each pattern is
  paired with its \<open>source\<close> text, which the error message quotes.
\<close>

definition dangerousPatterns :: "(rx \<times> string) list" where
  "dangerousPatterns = [
    (Str ''xp_cmdshell'', ''xp_cmdshell''),
    (cat [Str ''exec'', Plus Space, Str ''master''], ''exec'' @ [bsl] @ ''s+master''),
    (cat [Str ''execute'', Plus Space, Str ''master''], ''execute'' @ [bsl] @ ''s+master''),
    (cat [Str ''bulk'', Plus Space, Str ''insert''], ''bulk'' @ [bsl] @ ''s+insert''),
    (Str ''openrowset'', ''openrowset''),
    (Str ''opendatasource'', ''opendatasource''),
    (Str ''sp_oacreate'', ''sp_oacreate''),
    (Str ''pg_read_file'', ''pg_read_file''),
    (Str ''pg_ls_dir'', ''pg_ls_dir''),
    (Str ''lo_import'', ''lo_import''),
    (Str ''lo_export'', ''lo_export''),
    (cat [Str '';'', Star Space,
          alts [Str ''drop'', Str ''delete'', Str ''truncate'', Str ''alter'', Str ''create'',
                Str ''grant'', Str ''revoke'']],
     '';'' @ [bsl] @ ''s*(drop|delete|truncate|alter|create|grant|revoke)''),
    (cat [Str ''--'', StarLazy (NoneOf [Chr newline]),
          alts [Str ''union'', Str ''select'', Str ''insert'', Str ''update'', Str ''delete'']],
     ''--[^'' @ [bsl] @ ''n]*?(union|select|insert|update|delete)''),
    (cat [Str ''/*'', StarLazy Dot,
          alts [Str ''union'', Str ''select'', Str ''insert'', Str ''update'', Str ''delete''],
          StarLazy Dot, Str ''*/''],
     [bsl] @ ''/'' @ [bsl] @ ''*.*?(union|select|insert|update|delete).*?'' @ [bsl] @ ''*''
       @ [bsl] @ ''/''),
    (cat [Str ''union'', Plus Space, Opt (cat [Str ''all'', Plus Space]), Str ''select''],
     ''union'' @ [bsl] @ ''s+(all'' @ [bsl] @ ''s+)?select''),
    (cat [Str [squote], Star Space, alts [Str ''or'', Str ''and''], Star Space,
          Opt (Str [squote]), Star Space, Opt (Str [squote]), Star Space, Str ''='',
          Star Space, Opt (Str [squote])],
     [squote] @ [bsl] @ ''s*(or|and)'' @ [bsl] @ ''s*'' @ [squote] @ ''?'' @ [bsl] @ ''s*''
       @ [squote] @ ''?'' @ [bsl] @ ''s*='' @ [bsl] @ ''s*'' @ [squote] @ ''?''),
    (cat [Str [squote], Star Space, alts [Str ''or'', Str ''and''], Plus Space, Plus Digit,
          Star Space, Str ''='', Star Space, Plus Digit],
     [squote] @ [bsl] @ ''s*(or|and)'' @ [bsl] @ ''s+'' @ [bsl] @ ''d+'' @ [bsl] @ ''s*=''
       @ [bsl] @ ''s*'' @ [bsl] @ ''d+''),
    (cat [Str ''waitfor'', Plus Space, Str ''delay''], ''waitfor'' @ [bsl] @ ''s+delay''),
    (Str ''pg_sleep'', ''pg_sleep''),
    (cat [Str ''sleep'', Star Space, Str ''(''], ''sleep'' @ [bsl] @ ''s*'' @ [bsl] @ ''(''),
    (cat [Str ''benchmark'', Star Space, Str ''(''], ''benchmark'' @ [bsl] @ ''s*'' @ [bsl] @ ''('')
  ]"

text \<open>The suspicious patterns, each with its message.\<close>

definition suspiciousPatterns :: "(rx \<times> string) list" where
  "suspiciousPatterns = [
    (Str ''information_schema'', ''Access to information_schema detected''),
    (Str ''pg_catalog'', ''Access to pg_catalog detected''),
    (cat [Str [squote], Star Space, Str ''+'', Star Space, Str [squote]],
     ''String concatenation in query''),
    (cat [Str ''char'', Star Space, Str ''(''], ''CHAR() function usage detected''),
    (cat [Str ''concat'', Star Space, Str ''(''], ''CONCAT() function usage detected'')
  ]"

definition detectSQLInjection :: "string \<Rightarrow> SecurityCheckResult" where
  "detectSQLInjection query =
     (let errs = map (\<lambda>p. ''Detected dangerous SQL pattern: '' @ snd p)
                   (filter (\<lambda>p. test True (fst p) query) dangerousPatterns);
          warns = map snd (filter (\<lambda>p. test True (fst p) query) suspiciousPatterns)
      in \<lparr>safe = (errs = []), errors = errs, warnings = warns\<rparr>)"

text \<open>
  \<open>enforceReadOnly\<close>. The pattern of a write operation \<open>op\<close> is
  \<open>new RegExp(`(^|;)\\s*${op}\\s+`, "i")\<close>.
\<close>

definition writeOperations :: "string list" where
  "writeOperations = [''INSERT'', ''UPDATE'', ''DELETE'', ''DROP'', ''CREATE'', ''ALTER'',
     ''TRUNCATE'', ''GRANT'', ''REVOKE'']"

definition write_pattern :: "string \<Rightarrow> rx" where
  "write_pattern op = cat [Alt Bol (Str '';''), Star Space, Str op, Plus Space]"

definition enforceReadOnly :: "string \<Rightarrow> SecurityCheckResult" where
  "enforceReadOnly query =
     (let normalized = toUpperCase (trim query);
          errs1 = map (\<lambda>op. ''Write operation not allowed: '' @ op)
                    (filter (\<lambda>op. test True (write_pattern op) query) writeOperations);
          errs2 = (if \<not> startsWith normalized ''SELECT'' \<and> \<not> startsWith normalized ''WITH''
                   then [''Query must be a SELECT statement or CTE''] else []);
          statements = filter (\<lambda>s. trim s \<noteq> []) (split_char (CHR '';'') query);
          warns = (if length statements > 1
                   then [''Multiple statements detected - only the first will be executed'']
                   else [])
      in \<lparr>safe = (errs1 @ errs2 = []), errors = errs1 @ errs2, warnings = warns\<rparr>)"

text \<open>
  \<open>validateQueryStructure\<close>. The loop over the characters stops at the first point where
  the balance of the parentheses is negative; it yields the balance and whether it stopped.
\<close>

fun paren_walk :: "int \<Rightarrow> string \<Rightarrow> int \<times> bool" where
  "paren_walk b [] = (b, False)"
| "paren_walk b (c # cs) =
     (let b1 = (if c = CHR ''('' then b + 1 else b);
          b2 = (if c = CHR '')'' then b1 - 1 else b1)
      in if b2 < 0 then (b2, True) else paren_walk b2 cs)"

definition validateQueryStructure :: "string \<Rightarrow> SecurityCheckResult" where
  "validateQueryStructure query =
     (let singleQuotes = match_count False (A (Chr squote)) query;
          e1 = (if singleQuotes mod 2 \<noteq> 0 then [''Unbalanced single quotes detected''] else []);
          doubleQuotes = match_count False (A (Chr dquote)) query;
          e2 = (if doubleQuotes mod 2 \<noteq> 0 then [''Unbalanced double quotes detected''] else []);
          walk = paren_walk 0 query;
          e3 = (if snd walk then [''Unbalanced parentheses detected''] else []);
          e4 = (if fst walk > 0 then [''Unclosed parentheses detected''] else []);
          w1 = (if length query > 10000
                then [''Query exceeds recommended length (10000 characters)''] else []);
          selectCount = match_count True (cat [WordB, Str ''select'', WordB]) query;
          w2 = (if selectCount > 10
                then [''High number of SELECT clauses ('' @ show_nat selectCount
                      @ '') - may impact performance''] else []);
          joinCount = match_count True (cat [WordB, Str ''join'', WordB]) query;
          w3 = (if joinCount > 8
                then [''High number of JOINs ('' @ show_nat joinCount
                      @ '') - may impact performance''] else []);
          errs = e1 @ e2 @ e3 @ e4
      in \<lparr>safe = (errs = []), errors = errs, warnings = w1 @ w2 @ w3\<rparr>)"

definition validateQuerySecurity :: "string \<Rightarrow> SecurityCheckResult" where
  "validateQuerySecurity query =
     (let results = [detectSQLInjection query, enforceReadOnly query, validateQueryStructure query];
          allErrors = concat (map errors results);
          allWarnings = concat (map warnings results)
      in \<lparr>safe = (allErrors = []), errors = allErrors, warnings = allWarnings\<rparr>)"

section \<open>Query optimizer (lib/query-optimizer.ts)\<close>

text \<open>
  The options of \<open>paginateQuery\<close> are destructured with defaults,
  \<open>const { page = 1, pageSize = 50 } = options\<close>: a field that is \<open>undefined\<close> is \<open>None\<close>.
\<close>

record PaginationOptions =
  page :: "int option"
  pageSize :: "int option"

record Pagination =
  pg_page :: int
  pg_pageSize :: int
  pg_offset :: int
  pg_limit :: int

record OptimizedQuery =
  sql :: string
  countSql :: "string option"
  pagination :: "Pagination option"
  hints :: "string list"

text \<open>The patterns \<open>/LIMIT\s+\d+/i\<close>, \<open>/OFFSET\s+\d+/i\<close> and \<open>/;$/\<close>.\<close>

definition limit_rx :: rx where
  "limit_rx = cat [Str ''LIMIT'', Plus Space, Plus Digit]"

definition offset_rx :: rx where
  "offset_rx = cat [Str ''OFFSET'', Plus Space, Plus Digit]"

definition semicolon_end_rx :: rx where
  "semicolon_end_rx = cat [Str '';'', Eol]"

text \<open>The local variable \<open>cleanedSql\<close> of \<open>paginateQuery\<close> as a function of the input.\<close>

definition cleanedSql :: "string \<Rightarrow> string" where
  "cleanedSql s =
     replace_first False semicolon_end_rx []
       (trim (replace_first True offset_rx [] (replace_first True limit_rx [] s)))"

definition paginateQuery :: "string \<Rightarrow> PaginationOptions \<Rightarrow> OptimizedQuery" where
  "paginateQuery s options =
     (let page0 = (case page options of None \<Rightarrow> 1 | Some p \<Rightarrow> p);
          pageSize0 = (case pageSize options of None \<Rightarrow> 50 | Some n \<Rightarrow> n);
          validPage = max 1 page0;
          validPageSize = min 1000 (max 10 pageSize0);
          offset = (validPage - 1) * validPageSize;
          limit = validPageSize;
          cleaned = cleanedSql s;
          paginatedSql = cleaned @ [newline] @ ''LIMIT '' @ show_int limit
                           @ '' OFFSET '' @ show_int offset;
          count = ''SELECT COUNT(*) as total FROM ('' @ cleaned @ '') as subquery'';
          hints0 = [''Paginating: page '' @ show_int validPage @ '', '' @ show_int validPageSize
                      @ '' rows per page'',
                    ''Offset: '' @ show_int offset @ '', Limit: '' @ show_int limit]
                   @ (if pageSize0 > 1000
                      then [''Page size capped at 1000 rows for performance''] else [])
      in \<lparr>sql = paginatedSql, countSql = Some count,
          pagination = Some \<lparr>pg_page = validPage, pg_pageSize = validPageSize,
                              pg_offset = offset, pg_limit = limit\<rparr>,
          hints = hints0\<rparr>)"

text \<open>
  A \<open>Map<string, string[]>\<close> of table names to column names is a list of pairs, read
  with \<open>map_of\<close>; \<open>map.get(k) || []\<close> is \<open>lookup_list\<close>.
\<close>

type_synonym table_map = "(string \<times> string list) list"

definition lookup_list :: "table_map \<Rightarrow> string \<Rightarrow> string list" where
  "lookup_list m k = (case map_of m k of None \<Rightarrow> [] | Some xs \<Rightarrow> xs)"

text \<open>\<open>x.split(".").pop() || ""\<close>\<close>

definition last_segment :: "string \<Rightarrow> string" where
  "last_segment x = last (split_char (CHR ''.'') x)"

text \<open>
  \<open>addIndexHints\<close>. The patterns are \<open>/FROM\s+([a-zA-Z0-9_]+)/i\<close>,
  \<open>/WHERE\s+(.+?)(?:GROUP BY|ORDER BY|LIMIT|$)/i\<close>, \<open>/ORDER BY\s+([a-zA-Z0-9_]+)/i\<close> and
  \<open>/JOIN\s+([a-zA-Z0-9_]+)\s+ON\s+([a-zA-Z0-9_.]+)\s*=\s*([a-zA-Z0-9_.]+)/gi\<close>; the SQL text
  is returned unchanged.
\<close>

definition from_parts :: "rx list" where
  "from_parts = [cat [Str ''FROM'', Plus Space], Plus WordCh]"

definition where_parts :: "rx list" where
  "where_parts = [cat [Str ''WHERE'', Plus Space], PlusLazy Dot,
                  alts [Str ''GROUP BY'', Str ''ORDER BY'', Str ''LIMIT'', Eol]]"

definition orderby_parts :: "rx list" where
  "orderby_parts = [cat [Str ''ORDER BY'', Plus Space], Plus WordCh]"

definition join_parts :: "rx list" where
  "join_parts = [cat [Str ''JOIN'', Plus Space], Plus WordCh, cat [Plus Space, Str ''ON'', Plus Space],
                 Plus (OneOf [WordCh, Chr (CHR ''.'')]), cat [Star Space, Str ''='', Star Space],
                 Plus (OneOf [WordCh, Chr (CHR ''.'')])]"

definition addIndexHints :: "string \<Rightarrow> table_map \<Rightarrow> OptimizedQuery" where
  "addIndexHints s tableIndexes =
     (case find_parts True from_parts s of
        None \<Rightarrow> \<lparr>sql = s, countSql = None, pagination = None, hints = []\<rparr>
      | Some fromMatch \<Rightarrow>
          (let tableName = fromMatch ! 1;
               indexes = lookup_list tableIndexes (toLowerCase tableName);
               h1 = (case find_parts True where_parts s of
                       None \<Rightarrow> []
                     | Some whereMatch \<Rightarrow>
                         map (\<lambda>index. ''Index available on '' @ tableName @ ''.'' @ index)
                           (filter (\<lambda>index. includes_str (toLowerCase (whereMatch ! 1))
                                               (toLowerCase index)) indexes));
               h2 = (case find_parts True orderby_parts s of
                       None \<Rightarrow> []
                     | Some orderByMatch \<Rightarrow>
                         (if orderByMatch ! 1 \<in> set indexes
                          then [''Index available for ORDER BY on '' @ orderByMatch ! 1]
                          else [''Consider creating index on '' @ tableName @ ''.''
                                  @ orderByMatch ! 1 @ '' for ORDER BY optimization'']));
               h3 = concat (map (\<lambda>m.
                       (let joinTable = m ! 1;
                            leftColumn = last_segment (m ! 3);
                            rightColumn = last_segment (m ! 5);
                            joinIndexes = lookup_list tableIndexes (toLowerCase joinTable)
                        in if leftColumn \<notin> set joinIndexes \<and> rightColumn \<notin> set joinIndexes
                           then [''Consider adding index on join column: '' @ joinTable @ ''.''
                                   @ rightColumn]
                           else []))
                     (find_parts_all True join_parts s))
           in \<lparr>sql = s, countSql = None, pagination = None, hints = h1 @ h2 @ h3\<rparr>))"

text \<open>\<open>optimizeSelectStar\<close>, with the pattern \<open>/SELECT\s+\*/i\<close>.\<close>

definition select_star_rx :: rx where
  "select_star_rx = cat [Str ''SELECT'', Plus Space, Str ''*'']"

definition optimizeSelectStar :: "string \<Rightarrow> table_map \<Rightarrow> OptimizedQuery" where
  "optimizeSelectStar s tableColumns =
     (if test True select_star_rx s then
        (let h0 = [''SELECT * detected - consider specifying explicit columns for better performance'']
         in case find_parts True from_parts s of
              None \<Rightarrow> \<lparr>sql = s, countSql = None, pagination = None, hints = h0\<rparr>
            | Some fromMatch \<Rightarrow>
                (case map_of tableColumns (toLowerCase (fromMatch ! 1)) of
                   None \<Rightarrow> \<lparr>sql = s, countSql = None, pagination = None, hints = h0\<rparr>
                 | Some columns \<Rightarrow>
                     if length columns > 0 then
                       \<lparr>sql = replace_first True select_star_rx
                                (''SELECT '' @ join '', '' columns) s,
                        countSql = None, pagination = None,
                        hints = h0 @ [''Replaced SELECT * with explicit columns: ''
                                  @ join '', '' (take 5 columns)
                                  @ (if length columns > 5 then ''...'' else [])]\<rparr>
                     else \<lparr>sql = s, countSql = None, pagination = None, hints = h0\<rparr>))
      else \<lparr>sql = s, countSql = None, pagination = None, hints = []\<rparr>)"

text \<open>
  \<open>optimizeSubqueries\<close>, with the patterns \<open>/SELECT[\s\S]*?FROM\s*\(/gi\<close> and
  \<open>/WHERE\s+[a-zA-Z0-9_.]+\s+IN\s*\(\s*SELECT/i\<close>.
\<close>

definition subquery_rx :: rx where
  "subquery_rx = cat [Str ''SELECT'', StarLazy Any, Str ''FROM'', Star Space, Str ''('']"

definition correlated_rx :: rx where
  "correlated_rx = cat [Str ''WHERE'', Plus Space, Plus (OneOf [WordCh, Chr (CHR ''.'')]),
                        Plus Space, Str ''IN'', Star Space, Str ''('', Star Space, Str ''SELECT'']"

definition optimizeSubqueries :: "string \<Rightarrow> OptimizedQuery" where
  "optimizeSubqueries s =
     (let subqueryCount = match_count True subquery_rx s;
          h1 = (if subqueryCount > 0
                then [show_nat subqueryCount @ '' subquery(ies) detected'']
                     @ (if subqueryCount > 3
                        then [''Consider using CTEs (WITH clause) for better readability and potential performance'']
                        else [])
                else []);
          h2 = (if test True correlated_rx s
                then [''Correlated subquery detected - consider using JOIN instead for better performance'']
                else [])
      in \<lparr>sql = s, countSql = None, pagination = None, hints = h1 @ h2\<rparr>)"

definition addQueryTimeout :: "string \<Rightarrow> int \<Rightarrow> string" where
  "addQueryTimeout s timeoutMs = ''SET LOCAL statement_timeout = '' @ show_int timeoutMs @ ''; '' @ s"

text \<open>
  \<open>optimizeQuery\<close>. An option that is not passed is \<open>None\<close>; \<open>enableTimeout\<close> is a
  boolean. With the timeout enabled the sixth argument is \<open>options.timeoutMs\<close>, for which
  \<open>addQueryTimeout\<close> has the default 30000 and the hint \<open>options.timeoutMs || 30000\<close>.
\<close>

record OptimizeOptions =
  opt_pagination :: "PaginationOptions option"
  opt_tableIndexes :: "table_map option"
  opt_tableColumns :: "table_map option"
  opt_enableTimeout :: bool
  opt_timeoutMs :: "int option"

definition optimizeQuery :: "string \<Rightarrow> OptimizeOptions \<Rightarrow> OptimizedQuery" where
  "optimizeQuery s options =
     (let r0 = \<lparr>sql = s, countSql = None, pagination = None, hints = []\<rparr>;
          r1 = (case opt_pagination options of
                  None \<Rightarrow> r0
                | Some pg \<Rightarrow> (let paginated = paginateQuery (sql r0) pg
                             in paginated\<lparr>hints := hints r0 @ hints paginated\<rparr>));
          r2 = (case opt_tableIndexes options of
                  None \<Rightarrow> r1
                | Some ti \<Rightarrow> (let indexed = addIndexHints (sql r1) ti
                             in r1\<lparr>sql := sql indexed, hints := hints r1 @ hints indexed\<rparr>));
          r3 = (case opt_tableColumns options of
                  None \<Rightarrow> r2
                | Some tc \<Rightarrow> (let optimized = optimizeSelectStar (sql r2) tc
                             in r2\<lparr>sql := sql optimized, hints := hints r2 @ hints optimized\<rparr>));
          subqueryOpt = optimizeSubqueries (sql r3);
          r4 = r3\<lparr>hints := hints r3 @ hints subqueryOpt\<rparr>
      in if opt_enableTimeout options
         then r4\<lparr>sql := addQueryTimeout (sql r4)
                            (case opt_timeoutMs options of None \<Rightarrow> 30000 | Some t \<Rightarrow> t),
                 hints := hints r4 @ [''Query timeout set to ''
                   @ show_int (case opt_timeoutMs options of
                                 None \<Rightarrow> 30000 | Some t \<Rightarrow> if t \<noteq> 0 then t else 30000)
                   @ ''ms'']\<rparr>
         else r4)"

text \<open>\<open>estimateQueryCost\<close>.\<close>

datatype cost = Low | Medium | High

definition cost_name :: "cost \<Rightarrow> string" where
  "cost_name c = (case c of Low \<Rightarrow> ''low'' | Medium \<Rightarrow> ''medium'' | High \<Rightarrow> ''high'')"

definition aggregation_rx :: rx where
  "aggregation_rx = cat [WordB, alts [Str ''COUNT'', Str ''SUM'', Str ''AVG'', Str ''MIN'',
                                      Str ''MAX'', Str ''GROUP BY''], WordB]"

definition estimateQueryCost :: "string \<Rightarrow> cost \<times> string list" where
  "estimateQueryCost s =
     (let joinCount = match_count True (cat [WordB, Str ''JOIN'', WordB]) s;
          subqueryCount = match_count True subquery_rx s;
          aggregations = match_count True aggregation_rx s;
          distinct_found = test True (cat [WordB, Str ''DISTINCT'', WordB]) s;
          orderby_found = test True (cat [WordB, Str ''ORDER BY'', WordB]) s;
          likeCount = match_count True (cat [WordB, Str ''LIKE'', WordB]) s;
          score = joinCount * 10 + subqueryCount * 15 + aggregations * 5
                  + (if distinct_found then 10 else 0) + (if orderby_found then 5 else 0)
                  + likeCount * 8;
          factors = (if joinCount > 0 then [show_nat joinCount @ '' JOIN(s)''] else [])
                  @ (if subqueryCount > 0 then [show_nat subqueryCount @ '' subquery(ies)''] else [])
                  @ (if aggregations > 0 then [show_nat aggregations @ '' aggregation(s)''] else [])
                  @ (if distinct_found then [''DISTINCT operation''] else [])
                  @ (if orderby_found then [''ORDER BY clause''] else [])
                  @ (if likeCount > 0 then [show_nat likeCount @ '' LIKE pattern(s)''] else [])
      in (if score < 20 then Low else if score < 50 then Medium else High, factors))"

section \<open>Pipeline (app/api/query-pipeline/route.ts)\<close>

text \<open>
  The handler \<open>POST\<close> talks to a language model, a relational backend, an embedding
  service and a vector store. What these answer during one request is given by a record:
  every answer is a value or the message of the error thrown. The field \<open>w_generate\<close> is
  the outcome of the \<open>try\<close> block of \<open>generateSQL\<close> (the schema query and the generation
  call), \<open>w_run_count\<close> is the value \<open>Number(countResult[0]?.total || 0)\<close> of the count
  query, and the \<open>t\<close> fields are the differences of \<open>Date.now()\<close> that the handler
  measures. \<open>getTableIndexes\<close> and \<open>getTableColumns\<close> catch their own errors and return a
  map in every case; \<open>optimizeQuery\<close> works on strings and maps and does not throw, so the
  \<open>catch\<close> around it is never entered.
\<close>

datatype classification = Structured | Document | Hybrid

definition classification_name :: "classification \<Rightarrow> string" where
  "classification_name c =
     (case c of Structured \<Rightarrow> ''structured'' | Document \<Rightarrow> ''document'' | Hybrid \<Rightarrow> ''hybrid'')"

record world =
  w_now_rate :: int
  w_now_get :: int
  w_now_set :: int
  w_classify :: "string + string"
  w_generate :: "string + string"
  w_tableIndexes :: table_map
  w_tableColumns :: table_map
  w_run_query :: "string \<Rightarrow> string + json list"
  w_run_count :: "string \<Rightarrow> string + int"
  w_embed :: "string + unit"
  w_search :: "string + json list"
  t_cache_check :: int
  t_classification :: int
  t_security_check :: int
  t_sql_generation :: int
  t_optimization :: int
  t_sql_execution :: int
  t_embedding_generation :: int
  t_document_search :: int
  t_total :: int

text \<open>
  The body of the request, \<open>const { query, page = 1, pageSize = 50, enableCache = true, userId
  = "anonymous" } = body\<close>: a field that is missing is \<open>None\<close>.
\<close>

record request_body =
  rq_query :: "string option"
  rq_page :: "int option"
  rq_pageSize :: "int option"
  rq_enableCache :: "bool option"
  rq_userId :: "string option"

text \<open>The two process-wide objects: the rate limiter and the cache of responses.\<close>

record server =
  limiter :: rate_limiter
  responses :: "json QueryCache"

text \<open>
  The result of \<open>POST\<close>: the status code and the JSON body of the response, the SQL
  statements sent to the backend with \<open>$queryRawUnsafe\<close>, in order, and the two objects
  after the request. In a body, a property whose value is \<open>undefined\<close> is dropped when
  the response is serialized.
\<close>

record http_result =
  status :: nat
  body :: "(string \<times> json) list"
  executed :: "string list"
  after :: server

definition classifyQuery :: "world \<Rightarrow> classification" where
  "classifyQuery w =
     (case w_classify w of
        Inl err \<Rightarrow> Structured
      | Inr reply \<Rightarrow>
          (let type = toLowerCase (trim reply) in
           if includes_str type ''structured'' then Structured
           else if includes_str type ''document'' then Document
           else if includes_str type ''hybrid'' then Hybrid
           else Structured))"

text \<open>
  \<open>generateSQL\<close>: the reply is trimmed and freed of code fences with
  \<open>/```sql\n?/g\<close> and \<open>/```\n?/g\<close>; when anything in the \<open>try\<close> block throws, the
  \<open>catch\<close> returns a fixed query.
\<close>

definition fallback_sql :: string where
  "fallback_sql = ''SELECT * FROM '' @ [dquote] @ ''Document'' @ [dquote] @ '' LIMIT 10''"

definition fence_sql_rx :: rx where
  "fence_sql_rx = cat [Str [backtick, backtick, backtick], Str ''sql'', Opt (Str [newline])]"

definition fence_rx :: rx where
  "fence_rx = cat [Str [backtick, backtick, backtick], Opt (Str [newline])]"

definition strip_fences :: "string \<Rightarrow> string" where
  "strip_fences reply =
     trim (replace_all False fence_rx [] (replace_all False fence_sql_rx [] (trim reply)))"

definition generateSQL :: "world \<Rightarrow> string" where
  "generateSQL w = (case w_generate w of Inl err \<Rightarrow> fallback_sql | Inr reply \<Rightarrow> strip_fences reply)"

definition json_strings :: "string list \<Rightarrow> json" where
  "json_strings xs = JArr (map JStr xs)"

definition stats_json :: "CacheStats \<Rightarrow> json" where
  "stats_json s = JObj [(''size'', JNum (stats_size s)), (''maxSize'', JNum (stats_maxSize s)),
                        (''totalHits'', JNum (stats_totalHits s))]"

text \<open>\<open>Math.ceil(total / pageSize)\<close> for integers and a positive page size.\<close>

definition ceil_div :: "int \<Rightarrow> int \<Rightarrow> int" where
  "ceil_div a b = - ((- a) div b)"

text \<open>
  The response of a cache hit,
  \<open>{...cached.data, performance: {...cached.data.performance, cache_hit: true, cache_check_ms}}\<close>.
\<close>

definition hit_body :: "world \<Rightarrow> json \<Rightarrow> (string \<times> json) list" where
  "hit_body w cached =
     (let fields = (case cached of JObj kvs \<Rightarrow> kvs | _ \<Rightarrow> []);
          perf = (case map_of fields ''performance'' of Some (JObj kvs) \<Rightarrow> kvs | _ \<Rightarrow> [])
      in map_set ''performance''
           (JObj (map_set ''cache_check_ms'' (JNum (t_cache_check w))
                    (map_set ''cache_hit'' (JBool True) perf)))
           fields)"

text \<open>
  The document search of step 5: the documents found, and the two durations as the
  response reports them (\<open>timings.x || 0\<close>). An error of the embedding call or of the
  vector query is caught; the \<open>catch\<close> logs a warning to the console and sets
  \<open>timings.document_search_ms = 0\<close>.
\<close>

definition document_stage :: "world \<Rightarrow> classification \<Rightarrow> json list \<times> int \<times> int" where
  "document_stage w c =
     (if c = Document \<or> c = Hybrid then
        (case w_embed w of
           Inl err \<Rightarrow> ([], 0, 0)
         | Inr u \<Rightarrow>
             (case w_search w of
                Inl err \<Rightarrow> ([], t_embedding_generation w, 0)
              | Inr docs \<Rightarrow> (docs, t_embedding_generation w, t_document_search w)))
      else ([], 0, 0))"

text \<open>The response object of a request that went through, built at the end of \<open>POST\<close>.\<close>

definition response_body ::
  "world \<Rightarrow> classification \<Rightarrow> string \<Rightarrow> SecurityCheckResult \<Rightarrow> OptimizedQuery option \<Rightarrow>
   json list \<Rightarrow> int \<Rightarrow> json QueryCache \<Rightarrow> (string \<times> json) list" where
  "response_body w c sqlQuery securityResult optimized structuredResults totalCount qc =
     (let structured_path = (c = Structured \<or> c = Hybrid);
          doc = document_stage w c;
          documentResults = fst doc;
          costEstimate = (if sqlQuery \<noteq> [] then estimateQueryCost sqlQuery else (Low, []));
          optimizationHints = (case optimized of None \<Rightarrow> [] | Some opt \<Rightarrow> hints opt);
          paginationInfo = (case optimized of None \<Rightarrow> None | Some opt \<Rightarrow> pagination opt)
      in [(''success'', JBool True),
          (''query_type'', JStr (classification_name c)),
          (''structured_results'',
             if length structuredResults > 0 then JArr structuredResults else JUndefined),
          (''document_results'',
             if length documentResults > 0 then JArr documentResults else JUndefined),
          (''sql'', if sqlQuery \<noteq> [] then JStr sqlQuery else JUndefined),
          (''performance'', JObj [
             (''classification_ms'', JNum (t_classification w)),
             (''security_check_ms'', JNum (t_security_check w)),
             (''optimization_ms'', JNum (t_optimization w)),
             (''cache_check_ms'', JNum (t_cache_check w)),
             (''sql_generation_ms'', JNum (if structured_path then t_sql_generation w else 0)),
             (''sql_execution_ms'', JNum (if structured_path then t_sql_execution w else 0)),
             (''embedding_generation_ms'', JNum (fst (snd doc))),
             (''document_search_ms'', JNum (snd (snd doc))),
             (''total_ms'', JNum (t_total w)),
             (''cache_hit'', JBool False),
             (''cache_stats'', stats_json (getStats qc))]),
          (''optimization'', JObj [
             (''hints'', json_strings optimizationHints),
             (''estimatedCost'', JStr (cost_name (fst costEstimate))),
             (''costFactors'', json_strings (snd costEstimate))]),
          (''security'', JObj [
             (''safe'', JBool (safe securityResult)),
             (''warnings'', json_strings (warnings securityResult))])]
         @ (case paginationInfo of
              None \<Rightarrow> []
            | Some pg \<Rightarrow>
                if totalCount > 0
                then [(''pagination'', JObj [
                        (''page'', JNum (pg_page pg)),
                        (''pageSize'', JNum (pg_pageSize pg)),
                        (''total'', JNum totalCount),
                        (''totalPages'', JNum (ceil_div totalCount (pg_pageSize pg)))])]
                else []))"

text \<open>
  The end of \<open>POST\<close>: the response is stored in the cache under the query and
  \<open>{page, pageSize}\<close> for five minutes, when the cache is enabled, and returned.
\<close>

definition finish ::
  "world \<Rightarrow> server \<Rightarrow> string \<Rightarrow> json \<Rightarrow> bool \<Rightarrow> string list \<Rightarrow> (string \<times> json) list \<Rightarrow> http_result" where
  "finish w srv query params enableCache sent response =
     \<lparr>status = 200, body = response, executed = sent,
      after = (if enableCache
               then srv\<lparr>responses := set_entry (w_now_set w) query (JObj response) params
                                         (Some (5 * 60 * 1000)) (responses srv)\<rparr>
               else srv)\<rparr>"

text \<open>The options that \<open>POST\<close> passes to \<open>optimizeQuery\<close>.\<close>

definition pipeline_options :: "world \<Rightarrow> int \<Rightarrow> int \<Rightarrow> OptimizeOptions" where
  "pipeline_options w page0 pageSize0 =
     \<lparr>opt_pagination = Some \<lparr>page = Some page0, pageSize = Some pageSize0\<rparr>,
      opt_tableIndexes = Some (w_tableIndexes w),
      opt_tableColumns = Some (w_tableColumns w),
      opt_enableTimeout = True, opt_timeoutMs = Some 30000\<rparr>"

definition count_query :: "string \<Rightarrow> string" where
  "count_query sqlQuery = ''SELECT COUNT(*) as total FROM ('' @ sqlQuery @ '') as subquery''"

text \<open>
  Steps 3 to 5 for a request that missed the cache: classification, generation and
  validation of the SQL, optimization, execution.
\<close>

definition run_pipeline ::
  "world \<Rightarrow> server \<Rightarrow> string \<Rightarrow> int \<Rightarrow> int \<Rightarrow> bool \<Rightarrow> http_result" where
  "run_pipeline w srv query page0 pageSize0 enableCache =
     (let params = JObj [(''page'', JNum page0), (''pageSize'', JNum pageSize0)];
          c = classifyQuery w;
          structured_path = (c = Structured \<or> c = Hybrid);
          sqlQuery = (if structured_path then generateSQL w else []);
          securityResult = (if structured_path then validateQuerySecurity sqlQuery
                            else \<lparr>safe = True, errors = [], warnings = []\<rparr>)
      in if structured_path \<and> \<not> safe securityResult then
           \<lparr>status = 400,
            body = [(''success'', JBool False),
                    (''error'', JStr ''Query failed security validation''),
                    (''details'', json_strings (errors securityResult))],
            executed = [], after = srv\<rparr>
         else
           (let optimized =
                  (if sqlQuery \<noteq> [] then
                     Some (optimizeQuery sqlQuery (pipeline_options w page0 pageSize0))
                   else None);
                optimizedQuery = (case optimized of None \<Rightarrow> sqlQuery | Some opt \<Rightarrow> sql opt);
                paginationInfo = (case optimized of None \<Rightarrow> None | Some opt \<Rightarrow> pagination opt);
                countQuery = count_query sqlQuery;
                failed = (\<lambda>sent err.
                  \<lparr>status = 500,
                   body = [(''success'', JBool False), (''error'', JStr ''Query execution failed''),
                           (''details'', JStr err)],
                   executed = sent, after = srv\<rparr>)
            in if structured_path then
                 (case w_run_query w optimizedQuery of
                    Inl err \<Rightarrow> failed [optimizedQuery] err
                  | Inr rows \<Rightarrow>
                      (if paginationInfo \<noteq> None then
                         (case w_run_count w countQuery of
                            Inl err \<Rightarrow> failed [optimizedQuery, countQuery] err
                          | Inr totalCount \<Rightarrow>
                              finish w srv query params enableCache [optimizedQuery, countQuery]
                                (response_body w c sqlQuery securityResult optimized rows totalCount
                                   (responses srv)))
                       else
                         finish w srv query params enableCache [optimizedQuery]
                           (response_body w c sqlQuery securityResult optimized rows 0
                              (responses srv))))
               else
                 finish w srv query params enableCache []
                   (response_body w c sqlQuery securityResult optimized [] 0 (responses srv))))"

text \<open>
  \<open>POST\<close>: the check of the body, the rate limit, the cache lookup, then the pipeline.
  A body without a query, or with a query of white space only, is refused.
\<close>

definition POST :: "world \<Rightarrow> server \<Rightarrow> request_body \<Rightarrow> http_result" where
  "POST w srv rq =
     (let page0 = (case rq_page rq of None \<Rightarrow> 1 | Some p \<Rightarrow> p);
          pageSize0 = (case rq_pageSize rq of None \<Rightarrow> 50 | Some n \<Rightarrow> n);
          enableCache = (case rq_enableCache rq of None \<Rightarrow> True | Some b \<Rightarrow> b);
          userId = (case rq_userId rq of None \<Rightarrow> ''anonymous'' | Some u \<Rightarrow> u)
      in case rq_query rq of
           None \<Rightarrow>
             \<lparr>status = 400,
              body = [(''success'', JBool False), (''error'', JStr ''Query is required'')],
              executed = [], after = srv\<rparr>
         | Some query \<Rightarrow>
             if trim query = [] then
               \<lparr>status = 400,
                body = [(''success'', JBool False), (''error'', JStr ''Query is required'')],
                executed = [], after = srv\<rparr>
             else
               (let allowed = isAllowed (w_now_rate w) userId (limiter srv);
                    srv1 = srv\<lparr>limiter := snd allowed\<rparr>
                in if \<not> fst allowed then
                     \<lparr>status = 429,
                      body = [(''success'', JBool False), (''error'', JStr ''Rate limit exceeded''),
                              (''remaining'',
                                 JNum (fst (getRemainingRequests (w_now_rate w) userId (limiter srv1))))],
                      executed = [], after = srv1\<rparr>
                   else
                     (let params = JObj [(''page'', JNum page0), (''pageSize'', JNum pageSize0)];
                          looked = (if enableCache
                                    then get (w_now_get w) query params (responses srv1)
                                    else (None, responses srv1));
                          srv2 = srv1\<lparr>responses := snd looked\<rparr>
                      in case fst looked of
                           Some cached \<Rightarrow>
                             \<lparr>status = 200, body = hit_body w (fst cached),
                              executed = [], after = srv2\<rparr>
                         | None \<Rightarrow> run_pipeline w srv2 query page0 pageSize0 enableCache)))"

text \<open>A property of a body that is present in the serialized response.\<close>

definition field :: "(string \<times> json) list \<Rightarrow> string \<Rightarrow> json option" where
  "field b k = (case map_of b k of Some JUndefined \<Rightarrow> None | v \<Rightarrow> v)"

text \<open>
  Conditions on a request, for the statements about the pipeline. \<open>cache_missed\<close>: the
  request has a query, is admitted by the rate limiter and is not answered from the
  cache. \<open>doc_search_fails\<close>: the embedding call or the vector query throws.
  \<open>structured_succeeds\<close>: the generated SQL passes the validation and the backend answers
  the optimized query with the given rows and the count query with a number.
\<close>

definition page_of :: "request_body \<Rightarrow> int" where
  "page_of rq = (case rq_page rq of None \<Rightarrow> 1 | Some p \<Rightarrow> p)"

definition pageSize_of :: "request_body \<Rightarrow> int" where
  "pageSize_of rq = (case rq_pageSize rq of None \<Rightarrow> 50 | Some n \<Rightarrow> n)"

definition cache_missed :: "world \<Rightarrow> server \<Rightarrow> request_body \<Rightarrow> bool" where
  "cache_missed w srv rq =
     (case rq_query rq of
        None \<Rightarrow> False
      | Some query \<Rightarrow>
          trim query \<noteq> []
          \<and> fst (isAllowed (w_now_rate w)
                 (case rq_userId rq of None \<Rightarrow> ''anonymous'' | Some u \<Rightarrow> u) (limiter srv))
          \<and> (rq_enableCache rq = Some False
               \<or> fst (get (w_now_get w) query
                        (JObj [(''page'', JNum (page_of rq)), (''pageSize'', JNum (pageSize_of rq))])
                        (responses srv)) = None))"




text \<open>
  The same answers, except that the document search succeeds, finds nothing and is
  measured as taking 0 ms.
\<close>

definition no_documents :: "world \<Rightarrow> world" where
  "no_documents w =
     w\<lparr>w_embed := Inr (), w_search := Inr [],
       t_embedding_generation := (case w_embed w of Inl err \<Rightarrow> 0 | Inr u \<Rightarrow> t_embedding_generation w),
       t_document_search := 0\<rparr>"

text \<open>
  Sample inputs: a fresh server, a request with the defaults, and answers of the outside
  world in which the backend returns one row for every query and counts one row.
\<close>

definition fresh_server :: server where
  "fresh_server = \<lparr>limiter = new_RateLimiter 100 60000, responses = queryCache0\<rparr>"

definition sample_request :: request_body where
  "sample_request = \<lparr>rq_query = Some ''Show employees hired in 2024'', rq_page = None,
     rq_pageSize = None, rq_enableCache = None, rq_userId = None\<rparr>"

definition sample_row :: json where
  "sample_row = JObj [(''id'', JNum 1)]"

definition sample_sql :: string where
  "sample_sql = ''SELECT id FROM employees''"

definition sample_world :: world where
  "sample_world =
     \<lparr>w_now_rate = 0, w_now_get = 0, w_now_set = 1,
      w_classify = Inr ''structured'',
      w_generate = Inr sample_sql,
      w_tableIndexes = [], w_tableColumns = [],
      w_run_query = (\<lambda>q. Inr [sample_row]),
      w_run_count = (\<lambda>q. Inr 1),
      w_embed = Inr (), w_search = Inr [],
      t_cache_check = 0, t_classification = 0, t_security_check = 0, t_sql_generation = 0,
      t_optimization = 0, t_sql_execution = 0, t_embedding_generation = 0,
      t_document_search = 0, t_total = 0\<rparr>"

text \<open>
  The same answers when the generation call throws, when it returns prose instead of a
  query, and when the request is classified hybrid and the embedding call throws.
\<close>

definition generation_throws :: world where
  "generation_throws = sample_world\<lparr>w_generate := Inl ''429 Too Many Requests''\<rparr>"

definition generation_prose :: world where
  "generation_prose = sample_world\<lparr>w_generate := Inr ''I cannot answer that.''\<rparr>"


section \<open>Properties of the string functions\<close>













section \<open>Evaluation of the character functions\<close>

text \<open>
  The case mappings on the tab, the line breaks and the printable ASCII characters, as
  equations for the simplifier.
\<close>

lemma canonicalize_ascii:
  "canonicalize (CHR 0x09) = CHR 0x09" "canonicalize (CHR 0x0A) = CHR 0x0A"
  "canonicalize (CHR 0x0D) = CHR 0x0D" "canonicalize (CHR 0x20) = CHR 0x20"
  "canonicalize (CHR 0x21) = CHR 0x21" "canonicalize (CHR 0x22) = CHR 0x22"
  "canonicalize (CHR 0x23) = CHR 0x23" "canonicalize (CHR 0x24) = CHR 0x24"
  "canonicalize (CHR 0x25) = CHR 0x25" "canonicalize (CHR 0x26) = CHR 0x26"
  "canonicalize (CHR 0x27) = CHR 0x27" "canonicalize (CHR 0x28) = CHR 0x28"
  "canonicalize (CHR 0x29) = CHR 0x29" "canonicalize (CHR 0x2A) = CHR 0x2A"
  "canonicalize (CHR 0x2B) = CHR 0x2B" "canonicalize (CHR 0x2C) = CHR 0x2C"
  "canonicalize (CHR 0x2D) = CHR 0x2D" "canonicalize (CHR 0x2E) = CHR 0x2E"
  "canonicalize (CHR 0x2F) = CHR 0x2F" "canonicalize (CHR ''0'') = CHR ''0''"
  "canonicalize (CHR ''1'') = CHR ''1''" "canonicalize (CHR ''2'') = CHR ''2''"
  "canonicalize (CHR ''3'') = CHR ''3''" "canonicalize (CHR ''4'') = CHR ''4''"
  "canonicalize (CHR ''5'') = CHR ''5''" "canonicalize (CHR ''6'') = CHR ''6''"
  "canonicalize (CHR ''7'') = CHR ''7''" "canonicalize (CHR ''8'') = CHR ''8''"
  "canonicalize (CHR ''9'') = CHR ''9''" "canonicalize (CHR 0x3A) = CHR 0x3A"
  "canonicalize (CHR 0x3B) = CHR 0x3B" "canonicalize (CHR 0x3C) = CHR 0x3C"
  "canonicalize (CHR 0x3D) = CHR 0x3D" "canonicalize (CHR 0x3E) = CHR 0x3E"
  "canonicalize (CHR 0x3F) = CHR 0x3F" "canonicalize (CHR 0x40) = CHR 0x40"
  "canonicalize (CHR ''A'') = CHR ''A''" "canonicalize (CHR ''B'') = CHR ''B''"
  "canonicalize (CHR ''C'') = CHR ''C''" "canonicalize (CHR ''D'') = CHR ''D''"
  "canonicalize (CHR ''E'') = CHR ''E''" "canonicalize (CHR ''F'') = CHR ''F''"
  "canonicalize (CHR ''G'') = CHR ''G''" "canonicalize (CHR ''H'') = CHR ''H''"
  "canonicalize (CHR ''I'') = CHR ''I''" "canonicalize (CHR ''J'') = CHR ''J''"
  "canonicalize (CHR ''K'') = CHR ''K''" "canonicalize (CHR ''L'') = CHR ''L''"
  "canonicalize (CHR ''M'') = CHR ''M''" "canonicalize (CHR ''N'') = CHR ''N''"
  "canonicalize (CHR ''O'') = CHR ''O''" "canonicalize (CHR ''P'') = CHR ''P''"
  "canonicalize (CHR ''Q'') = CHR ''Q''" "canonicalize (CHR ''R'') = CHR ''R''"
  "canonicalize (CHR ''S'') = CHR ''S''" "canonicalize (CHR ''T'') = CHR ''T''"
  "canonicalize (CHR ''U'') = CHR ''U''" "canonicalize (CHR ''V'') = CHR ''V''"
  "canonicalize (CHR ''W'') = CHR ''W''" "canonicalize (CHR ''X'') = CHR ''X''"
  "canonicalize (CHR ''Y'') = CHR ''Y''" "canonicalize (CHR ''Z'') = CHR ''Z''"
  "canonicalize (CHR 0x5B) = CHR 0x5B" "canonicalize (CHR 0x5C) = CHR 0x5C"
  "canonicalize (CHR 0x5D) = CHR 0x5D" "canonicalize (CHR 0x5E) = CHR 0x5E"
  "canonicalize (CHR 0x5F) = CHR 0x5F" "canonicalize (CHR 0x60) = CHR 0x60"
  "canonicalize (CHR ''a'') = CHR ''A''" "canonicalize (CHR ''b'') = CHR ''B''"
  "canonicalize (CHR ''c'') = CHR ''C''" "canonicalize (CHR ''d'') = CHR ''D''"
  "canonicalize (CHR ''e'') = CHR ''E''" "canonicalize (CHR ''f'') = CHR ''F''"
  "canonicalize (CHR ''g'') = CHR ''G''" "canonicalize (CHR ''h'') = CHR ''H''"
  "canonicalize (CHR ''i'') = CHR ''I''" "canonicalize (CHR ''j'') = CHR ''J''"
  "canonicalize (CHR ''k'') = CHR ''K''" "canonicalize (CHR ''l'') = CHR ''L''"
  "canonicalize (CHR ''m'') = CHR ''M''" "canonicalize (CHR ''n'') = CHR ''N''"
  "canonicalize (CHR ''o'') = CHR ''O''" "canonicalize (CHR ''p'') = CHR ''P''"
  "canonicalize (CHR ''q'') = CHR ''Q''" "canonicalize (CHR ''r'') = CHR ''R''"
  "canonicalize (CHR ''s'') = CHR ''S''" "canonicalize (CHR ''t'') = CHR ''T''"
  "canonicalize (CHR ''u'') = CHR ''U''" "canonicalize (CHR ''v'') = CHR ''V''"
  "canonicalize (CHR ''w'') = CHR ''W''" "canonicalize (CHR ''x'') = CHR ''X''"
  "canonicalize (CHR ''y'') = CHR ''Y''" "canonicalize (CHR ''z'') = CHR ''Z''"
  "canonicalize (CHR 0x7B) = CHR 0x7B" "canonicalize (CHR 0x7C) = CHR 0x7C"
  "canonicalize (CHR 0x7D) = CHR 0x7D" "canonicalize (CHR 0x7E) = CHR 0x7E"
  by (simp_all add: canonicalize_def) code_simp+

lemma lower_char_ascii:
  "lower_char (CHR 0x09) = CHR 0x09" "lower_char (CHR 0x0A) = CHR 0x0A"
  "lower_char (CHR 0x0D) = CHR 0x0D" "lower_char (CHR 0x20) = CHR 0x20"
  "lower_char (CHR 0x21) = CHR 0x21" "lower_char (CHR 0x22) = CHR 0x22"
  "lower_char (CHR 0x23) = CHR 0x23" "lower_char (CHR 0x24) = CHR 0x24"
  "lower_char (CHR 0x25) = CHR 0x25" "lower_char (CHR 0x26) = CHR 0x26"
  "lower_char (CHR 0x27) = CHR 0x27" "lower_char (CHR 0x28) = CHR 0x28"
  "lower_char (CHR 0x29) = CHR 0x29" "lower_char (CHR 0x2A) = CHR 0x2A"
  "lower_char (CHR 0x2B) = CHR 0x2B" "lower_char (CHR 0x2C) = CHR 0x2C"
  "lower_char (CHR 0x2D) = CHR 0x2D" "lower_char (CHR 0x2E) = CHR 0x2E"
  "lower_char (CHR 0x2F) = CHR 0x2F" "lower_char (CHR ''0'') = CHR ''0''"
  "lower_char (CHR ''1'') = CHR ''1''" "lower_char (CHR ''2'') = CHR ''2''"
  "lower_char (CHR ''3'') = CHR ''3''" "lower_char (CHR ''4'') = CHR ''4''"
  "lower_char (CHR ''5'') = CHR ''5''" "lower_char (CHR ''6'') = CHR ''6''"
  "lower_char (CHR ''7'') = CHR ''7''" "lower_char (CHR ''8'') = CHR ''8''"
  "lower_char (CHR ''9'') = CHR ''9''" "lower_char (CHR 0x3A) = CHR 0x3A"
  "lower_char (CHR 0x3B) = CHR 0x3B" "lower_char (CHR 0x3C) = CHR 0x3C"
  "lower_char (CHR 0x3D) = CHR 0x3D" "lower_char (CHR 0x3E) = CHR 0x3E"
  "lower_char (CHR 0x3F) = CHR 0x3F" "lower_char (CHR 0x40) = CHR 0x40"
  "lower_char (CHR ''A'') = CHR ''a''" "lower_char (CHR ''B'') = CHR ''b''"
  "lower_char (CHR ''C'') = CHR ''c''" "lower_char (CHR ''D'') = CHR ''d''"
  "lower_char (CHR ''E'') = CHR ''e''" "lower_char (CHR ''F'') = CHR ''f''"
  "lower_char (CHR ''G'') = CHR ''g''" "lower_char (CHR ''H'') = CHR ''h''"
  "lower_char (CHR ''I'') = CHR ''i''" "lower_char (CHR ''J'') = CHR ''j''"
  "lower_char (CHR ''K'') = CHR ''k''" "lower_char (CHR ''L'') = CHR ''l''"
  "lower_char (CHR ''M'') = CHR ''m''" "lower_char (CHR ''N'') = CHR ''n''"
  "lower_char (CHR ''O'') = CHR ''o''" "lower_char (CHR ''P'') = CHR ''p''"
  "lower_char (CHR ''Q'') = CHR ''q''" "lower_char (CHR ''R'') = CHR ''r''"
  "lower_char (CHR ''S'') = CHR ''s''" "lower_char (CHR ''T'') = CHR ''t''"
  "lower_char (CHR ''U'') = CHR ''u''" "lower_char (CHR ''V'') = CHR ''v''"
  "lower_char (CHR ''W'') = CHR ''w''" "lower_char (CHR ''X'') = CHR ''x''"
  "lower_char (CHR ''Y'') = CHR ''y''" "lower_char (CHR ''Z'') = CHR ''z''"
  "lower_char (CHR 0x5B) = CHR 0x5B" "lower_char (CHR 0x5C) = CHR 0x5C"
  "lower_char (CHR 0x5D) = CHR 0x5D" "lower_char (CHR 0x5E) = CHR 0x5E"
  "lower_char (CHR 0x5F) = CHR 0x5F" "lower_char (CHR 0x60) = CHR 0x60"
  "lower_char (CHR ''a'') = CHR ''a''" "lower_char (CHR ''b'') = CHR ''b''"
  "lower_char (CHR ''c'') = CHR ''c''" "lower_char (CHR ''d'') = CHR ''d''"
  "lower_char (CHR ''e'') = CHR ''e''" "lower_char (CHR ''f'') = CHR ''f''"
  "lower_char (CHR ''g'') = CHR ''g''" "lower_char (CHR ''h'') = CHR ''h''"
  "lower_char (CHR ''i'') = CHR ''i''" "lower_char (CHR ''j'') = CHR ''j''"
  "lower_char (CHR ''k'') = CHR ''k''" "lower_char (CHR ''l'') = CHR ''l''"
  "lower_char (CHR ''m'') = CHR ''m''" "lower_char (CHR ''n'') = CHR ''n''"
  "lower_char (CHR ''o'') = CHR ''o''" "lower_char (CHR ''p'') = CHR ''p''"
  "lower_char (CHR ''q'') = CHR ''q''" "lower_char (CHR ''r'') = CHR ''r''"
  "lower_char (CHR ''s'') = CHR ''s''" "lower_char (CHR ''t'') = CHR ''t''"
  "lower_char (CHR ''u'') = CHR ''u''" "lower_char (CHR ''v'') = CHR ''v''"
  "lower_char (CHR ''w'') = CHR ''w''" "lower_char (CHR ''x'') = CHR ''x''"
  "lower_char (CHR ''y'') = CHR ''y''" "lower_char (CHR ''z'') = CHR ''z''"
  "lower_char (CHR 0x7B) = CHR 0x7B" "lower_char (CHR 0x7C) = CHR 0x7C"
  "lower_char (CHR 0x7D) = CHR 0x7D" "lower_char (CHR 0x7E) = CHR 0x7E"
  by (simp_all add: lower_char_def) code_simp+

lemma upper_char_ascii:
  "upper_char (CHR 0x09) = [CHR 0x09]" "upper_char (CHR 0x0A) = [CHR 0x0A]"
  "upper_char (CHR 0x0D) = [CHR 0x0D]" "upper_char (CHR 0x20) = [CHR 0x20]"
  "upper_char (CHR 0x21) = [CHR 0x21]" "upper_char (CHR 0x22) = [CHR 0x22]"
  "upper_char (CHR 0x23) = [CHR 0x23]" "upper_char (CHR 0x24) = [CHR 0x24]"
  "upper_char (CHR 0x25) = [CHR 0x25]" "upper_char (CHR 0x26) = [CHR 0x26]"
  "upper_char (CHR 0x27) = [CHR 0x27]" "upper_char (CHR 0x28) = [CHR 0x28]"
  "upper_char (CHR 0x29) = [CHR 0x29]" "upper_char (CHR 0x2A) = [CHR 0x2A]"
  "upper_char (CHR 0x2B) = [CHR 0x2B]" "upper_char (CHR 0x2C) = [CHR 0x2C]"
  "upper_char (CHR 0x2D) = [CHR 0x2D]" "upper_char (CHR 0x2E) = [CHR 0x2E]"
  "upper_char (CHR 0x2F) = [CHR 0x2F]" "upper_char (CHR ''0'') = [CHR ''0'']"
  "upper_char (CHR ''1'') = [CHR ''1'']" "upper_char (CHR ''2'') = [CHR ''2'']"
  "upper_char (CHR ''3'') = [CHR ''3'']" "upper_char (CHR ''4'') = [CHR ''4'']"
  "upper_char (CHR ''5'') = [CHR ''5'']" "upper_char (CHR ''6'') = [CHR ''6'']"
  "upper_char (CHR ''7'') = [CHR ''7'']" "upper_char (CHR ''8'') = [CHR ''8'']"
  "upper_char (CHR ''9'') = [CHR ''9'']" "upper_char (CHR 0x3A) = [CHR 0x3A]"
  "upper_char (CHR 0x3B) = [CHR 0x3B]" "upper_char (CHR 0x3C) = [CHR 0x3C]"
  "upper_char (CHR 0x3D) = [CHR 0x3D]" "upper_char (CHR 0x3E) = [CHR 0x3E]"
  "upper_char (CHR 0x3F) = [CHR 0x3F]" "upper_char (CHR 0x40) = [CHR 0x40]"
  "upper_char (CHR ''A'') = [CHR ''A'']" "upper_char (CHR ''B'') = [CHR ''B'']"
  "upper_char (CHR ''C'') = [CHR ''C'']" "upper_char (CHR ''D'') = [CHR ''D'']"
  "upper_char (CHR ''E'') = [CHR ''E'']" "upper_char (CHR ''F'') = [CHR ''F'']"
  "upper_char (CHR ''G'') = [CHR ''G'']" "upper_char (CHR ''H'') = [CHR ''H'']"
  "upper_char (CHR ''I'') = [CHR ''I'']" "upper_char (CHR ''J'') = [CHR ''J'']"
  "upper_char (CHR ''K'') = [CHR ''K'']" "upper_char (CHR ''L'') = [CHR ''L'']"
  "upper_char (CHR ''M'') = [CHR ''M'']" "upper_char (CHR ''N'') = [CHR ''N'']"
  "upper_char (CHR ''O'') = [CHR ''O'']" "upper_char (CHR ''P'') = [CHR ''P'']"
  "upper_char (CHR ''Q'') = [CHR ''Q'']" "upper_char (CHR ''R'') = [CHR ''R'']"
  "upper_char (CHR ''S'') = [CHR ''S'']" "upper_char (CHR ''T'') = [CHR ''T'']"
  "upper_char (CHR ''U'') = [CHR ''U'']" "upper_char (CHR ''V'') = [CHR ''V'']"
  "upper_char (CHR ''W'') = [CHR ''W'']" "upper_char (CHR ''X'') = [CHR ''X'']"
  "upper_char (CHR ''Y'') = [CHR ''Y'']" "upper_char (CHR ''Z'') = [CHR ''Z'']"
  "upper_char (CHR 0x5B) = [CHR 0x5B]" "upper_char (CHR 0x5C) = [CHR 0x5C]"
  "upper_char (CHR 0x5D) = [CHR 0x5D]" "upper_char (CHR 0x5E) = [CHR 0x5E]"
  "upper_char (CHR 0x5F) = [CHR 0x5F]" "upper_char (CHR 0x60) = [CHR 0x60]"
  "upper_char (CHR ''a'') = [CHR ''A'']" "upper_char (CHR ''b'') = [CHR ''B'']"
  "upper_char (CHR ''c'') = [CHR ''C'']" "upper_char (CHR ''d'') = [CHR ''D'']"
  "upper_char (CHR ''e'') = [CHR ''E'']" "upper_char (CHR ''f'') = [CHR ''F'']"
  "upper_char (CHR ''g'') = [CHR ''G'']" "upper_char (CHR ''h'') = [CHR ''H'']"
  "upper_char (CHR ''i'') = [CHR ''I'']" "upper_char (CHR ''j'') = [CHR ''J'']"
  "upper_char (CHR ''k'') = [CHR ''K'']" "upper_char (CHR ''l'') = [CHR ''L'']"
  "upper_char (CHR ''m'') = [CHR ''M'']" "upper_char (CHR ''n'') = [CHR ''N'']"
  "upper_char (CHR ''o'') = [CHR ''O'']" "upper_char (CHR ''p'') = [CHR ''P'']"
  "upper_char (CHR ''q'') = [CHR ''Q'']" "upper_char (CHR ''r'') = [CHR ''R'']"
  "upper_char (CHR ''s'') = [CHR ''S'']" "upper_char (CHR ''t'') = [CHR ''T'']"
  "upper_char (CHR ''u'') = [CHR ''U'']" "upper_char (CHR ''v'') = [CHR ''V'']"
  "upper_char (CHR ''w'') = [CHR ''W'']" "upper_char (CHR ''x'') = [CHR ''X'']"
  "upper_char (CHR ''y'') = [CHR ''Y'']" "upper_char (CHR ''z'') = [CHR ''Z'']"
  "upper_char (CHR 0x7B) = [CHR 0x7B]" "upper_char (CHR 0x7C) = [CHR 0x7C]"
  "upper_char (CHR 0x7D) = [CHR 0x7D]" "upper_char (CHR 0x7E) = [CHR 0x7E]"
  by (simp_all add: upper_char_def) code_simp+

text \<open>
  Rules that keep the simplifier from working below a binder before the function is
  applied to an element of the list.
\<close>

lemma filter_weak_cong: "xs = ys \<Longrightarrow> filter P xs = filter P ys"
  by simp

lemma map_weak_cong: "xs = ys \<Longrightarrow> map f xs = map f ys"
  by simp

lemmas string_eval = trim_def toLowerCase_def toUpperCase_def startsWith_def isWhiteSpace_def
  isDigit_def isWordChar_def lower_char_ascii upper_char_ascii

lemmas rx_eval = test_def replace_first_def replace_all_def match_count_def at_word_boundary_def
  isWhiteSpace_def isDigit_def isWordChar_def canonicalize_ascii

section \<open>Properties of the matcher\<close>

lemma step_atom_extend:
  "(q, t) \<in> set (step_atom ci a (p, s)) \<Longrightarrow> (q, t @ post) \<in> set (step_atom ci a (p2, s @ post))"
  by (cases s) (auto split: if_splits)

lemma step_str_extend:
  "(q, t) \<in> set (step_str ci lit (p, s)) \<Longrightarrow>
   \<exists>q2. (q2, t @ post) \<in> set (step_str ci lit (p2, s @ post))"
proof (induction lit arbitrary: p p2 s)
  case Nil
  then show ?case by auto
next
  case (Cons c lit)
  then show ?case by (cases s) (auto split: if_splits)
qed

lemma star_greedy_extend:
  "(q, t) \<in> set (star_greedy ci a (p, s)) \<Longrightarrow>
   \<exists>q2. (q2, t @ post) \<in> set (star_greedy ci a (p2, s @ post))"
proof (induction s arbitrary: p p2)
  case Nil
  have "(p2, post) \<in> set (star_greedy ci a (p2, post))"
    by (cases post) auto
  with Nil show ?case by auto
next
  case (Cons c s)
  then show ?case by (fastforce split: if_splits)
qed

lemma star_lazy_extend:
  "(q, t) \<in> set (star_lazy ci a (p, s)) \<Longrightarrow>
   \<exists>q2. (q2, t @ post) \<in> set (star_lazy ci a (p2, s @ post))"
proof (induction s arbitrary: p p2)
  case Nil
  have "(p2, post) \<in> set (star_lazy ci a (p2, post))"
    by (cases post) auto
  with Nil show ?case by auto
next
  case (Cons c s)
  then show ?case by (fastforce split: if_splits)
qed

lemma rmatch_extend:
  "ctx_free r \<Longrightarrow> (q, t) \<in> set (rmatch ci r (p, s)) \<Longrightarrow>
   \<exists>q2. (q2, t @ post) \<in> set (rmatch ci r (p2, s @ post))"
proof (induction r arbitrary: q t p s p2)
  case Eps
  then show ?case by auto
next
  case (A a)
  then show ?case by (auto dest: step_atom_extend)
next
  case (Str lit)
  then show ?case by (auto dest: step_str_extend)
next
  case (Seq r1 r2)
  from Seq.prems obtain q1 t1 where
    m1: "(q1, t1) \<in> set (rmatch ci r1 (p, s))" and m2: "(q, t) \<in> set (rmatch ci r2 (q1, t1))"
    by auto
  from Seq.IH(1) [OF _ m1] Seq.prems(1) obtain q1' where
    "(q1', t1 @ post) \<in> set (rmatch ci r1 (p2, s @ post))" by auto
  moreover from Seq.IH(2) [OF _ m2] Seq.prems(1) obtain q2 where
    "(q2, t @ post) \<in> set (rmatch ci r2 (q1', t1 @ post))" by auto
  ultimately show ?case by auto
next
  case (Alt r1 r2)
  from Alt.prems(2) consider
    "(q, t) \<in> set (rmatch ci r1 (p, s))" | "(q, t) \<in> set (rmatch ci r2 (p, s))"
    by auto
  then show ?case
  proof cases
    case 1
    from Alt.IH(1) [OF _ 1, of p2] Alt.prems(1) show ?thesis by auto
  next
    case 2
    from Alt.IH(2) [OF _ 2, of p2] Alt.prems(1) show ?thesis by auto
  qed
next
  case (Star a)
  then show ?case by (auto dest: star_greedy_extend)
next
  case (StarLazy a)
  then show ?case by (auto dest: star_lazy_extend)
next
  case (Plus a)
  from Plus.prems obtain q1 t1 where
    m1: "(q1, t1) \<in> set (step_atom ci a (p, s))" and m2: "(q, t) \<in> set (star_greedy ci a (q1, t1))"
    by auto
  from step_atom_extend [OF m1] have "(q1, t1 @ post) \<in> set (step_atom ci a (p2, s @ post))" .
  moreover from star_greedy_extend [OF m2] obtain q2 where
    "(q2, t @ post) \<in> set (star_greedy ci a (q1, t1 @ post))" by blast
  ultimately show ?case by auto
next
  case (PlusLazy a)
  from PlusLazy.prems obtain q1 t1 where
    m1: "(q1, t1) \<in> set (step_atom ci a (p, s))" and m2: "(q, t) \<in> set (star_lazy ci a (q1, t1))"
    by auto
  from step_atom_extend [OF m1] have "(q1, t1 @ post) \<in> set (step_atom ci a (p2, s @ post))" .
  moreover from star_lazy_extend [OF m2] obtain q2 where
    "(q2, t @ post) \<in> set (star_lazy ci a (q1, t1 @ post))" by blast
  ultimately show ?case by auto
next
  case (Opt r)
  from Opt.prems(2) consider "(q, t) \<in> set (rmatch ci r (p, s))" | "t = s"
    by auto
  then show ?case
  proof cases
    case 1
    from Opt.IH [OF _ 1, of p2] Opt.prems(1) show ?thesis by auto
  next
    case 2
    then show ?thesis by auto
  qed
next
  case Bol
  then show ?case by simp
next
  case Eol
  then show ?case by simp
next
  case WordB
  then show ?case by simp
qed

lemma rsearch_here: "rmatch ci r (p, s) \<noteq> [] \<Longrightarrow> rsearch ci r (p, s)"
  by (cases s) auto

text \<open>
  If a pattern free of assertions matches at the start of a piece of text, it is found in
  every subject that contains the piece.
\<close>

lemma test_contains:
  assumes "ctx_free r" "rmatch ci r (p, m) \<noteq> []"
  shows "test ci r (pre @ m @ post)"
proof -
  from assms(2) obtain q t where "(q, t) \<in> set (rmatch ci r (p, m))"
    by (cases "rmatch ci r (p, m)") auto
  then have ext: "rmatch ci r (p2, m @ post) \<noteq> []" for p2
    using rmatch_extend [OF assms(1), of q t ci p m post p2] by auto
  have "rsearch ci r (p0, pre @ m @ post)" for p0
  proof (induction pre arbitrary: p0)
    case Nil
    show ?case using ext [of p0] by (simp add: rsearch_here)
  next
    case (Cons c pre)
    then show ?case by simp
  qed
  then show ?thesis by (simp add: test_def)
qed

section \<open>Properties of the cache\<close>

lemma map_of_map_set: "map_of (map_set k v m) k' = (if k' = k then Some v else map_of m k')"
  by (induction m) auto

lemma map_of_map_delete: "map_of (map_delete k m) k' = (if k' = k then None else map_of m k')"
  by (induction m) (auto simp: map_delete_def)

lemma keys_map_set:
  "map fst (map_set k v m) = (if k \<in> set (map fst m) then map fst m else map fst m @ [k])"
  by (induction m) auto


lemma map_set_absent: "k \<notin> set (map fst m) \<Longrightarrow> map_set k v m = m @ [(k, v)]"
  by (induction m) auto

lemma map_delete_head:
  "distinct (map fst (p # ps)) \<Longrightarrow> map_delete (fst p) (p # ps) = ps"
  by (auto simp: map_delete_def filter_id_conv rev_image_eqI)

lemma evict_oldest_distinct:
  assumes "distinct (map fst m)" "[] \<notin> set (map fst m)"
  shows "evict_oldest m = tl m"
proof (cases m)
  case Nil
  then show ?thesis by (simp add: evict_oldest_def)
next
  case (Cons p ps)
  with assms have "fst p \<noteq> []" by auto
  moreover from Cons assms have "map_delete (fst p) (p # ps) = ps"
    by (intro map_delete_head) simp
  ultimately show ?thesis using Cons by (simp add: evict_oldest_def)
qed

lemma generateKey_not_empty [simp]: "generateKey q p \<noteq> []" "[] \<noteq> generateKey q p"
  by (simp_all add: generateKey_def)

lemma distinct_map_filter_fst: "distinct (map fst m) \<Longrightarrow> distinct (map fst (filter P m))"
  by (induction m) auto

lemma distinct_map_set: "distinct (map fst m) \<Longrightarrow> distinct (map fst (map_set k v m))"
  by (simp add: keys_map_set)

lemma wf_new_QueryCache: "wf_cache (new_QueryCache ms dt)"
  by (simp add: wf_cache_def new_QueryCache_def)

lemma in_set_tl: "x \<in> set (tl xs) \<Longrightarrow> x \<in> set xs"
  by (cases xs) auto

lemma fst_set_map_set: "fst ` set (map_set k v m) = insert k (fst ` set m)"
  by (induction m) auto

lemma wf_set_entry: "wf_cache c \<Longrightarrow> wf_cache (set_entry now q d p t c)"
  unfolding wf_cache_def set_entry_def Let_def
  by (auto simp: keys_map_set evict_oldest_distinct fst_set_map_set
      distinct_tl map_tl dest: in_set_tl split: if_splits)

lemma wf_get: "wf_cache c \<Longrightarrow> wf_cache (snd (get now q p c))"
  unfolding wf_cache_def get_def Let_def
  by (auto simp: keys_map_set map_delete_def distinct_map_filter_fst
      fst_set_map_set split: option.splits if_splits)

lemma wf_cleanup: "wf_cache c \<Longrightarrow> wf_cache (snd (cleanup now c))"
  unfolding wf_cache_def cleanup_def by (auto simp: distinct_map_filter_fst)

lemma length_map_delete:
  "distinct (map fst m) \<Longrightarrow> map_of m k = Some e \<Longrightarrow> length (map_delete k m) = length m - 1"
proof (induction m)
  case Nil
  then show ?case by simp
next
  case (Cons p ps)
  show ?case
  proof (cases "fst p = k")
    case True
    with Cons.prems have "map_delete k (p # ps) = ps"
      using map_delete_head [of p ps] by simp
    then show ?thesis by simp
  next
    case False
    with Cons have "length (map_delete k ps) = length ps - 1" by simp
    moreover from False Cons.prems have "ps \<noteq> []" by auto
    ultimately show ?thesis using False by (simp add: map_delete_def)
  qed
qed

lemma set_entry_fields:
  "cache (set_entry now q d p t c) =
     map_set (generateKey q p)
       \<lparr>data = d, timestamp = now,
        ttl = (case t of None \<Rightarrow> defaultTTL c | Some t' \<Rightarrow> if t' \<noteq> 0 then t' else defaultTTL c),
        hits = 0\<rparr>
       (if maxSize c \<le> int (length (cache c)) then evict_oldest (cache c) else cache c)"
  "maxSize (set_entry now q d p t c) = maxSize c"
  "defaultTTL (set_entry now q d p t c) = defaultTTL c"
  by (simp_all add: set_entry_def Let_def)

text \<open>
  Claim C4. For every \<open>ttl > 0\<close>, \<open>set(q, d, params, ttl)\<close> followed by \<open>get(q, params)\<close> no
  later than \<open>ttl\<close> milliseconds after it (in particular at once) is a hit that carries the
  stored data. For every stored entry whose age \<open>now - timestamp\<close> exceeds its \<open>ttl\<close>,
  \<open>get\<close> returns \<open>null\<close> and deletes the entry, so that the size reported by \<open>getStats\<close>
  goes down by one.
\<close>

theorem cache_ttl:
  "(0 < t \<and> now' - now \<le> t \<longrightarrow>
      fst (get now' q p (set_entry now q d p (Some t) c)) = Some (d, True))
   \<and> (map_of (cache c) (generateKey q p) = Some e \<and> tg - timestamp e > ttl e \<longrightarrow>
        fst (get tg q p c) = None
        \<and> cache (snd (get tg q p c)) = map_delete (generateKey q p) (cache c)
        \<and> map_of (cache (snd (get tg q p c))) (generateKey q p) = None
        \<and> (wf_cache c \<longrightarrow>
             stats_size (getStats (snd (get tg q p c))) = stats_size (getStats c) - 1))"
proof (intro conjI impI)
  assume "0 < t \<and> now' - now \<le> t"
  then show "fst (get now' q p (set_entry now q d p (Some t) c)) = Some (d, True)"
    by (simp add: get_def set_entry_fields map_of_map_set Let_def)
next
  assume h: "map_of (cache c) (generateKey q p) = Some e \<and> tg - timestamp e > ttl e"
  then show "fst (get tg q p c) = None"
    by (simp add: get_def Let_def)
  from h show del: "cache (snd (get tg q p c)) = map_delete (generateKey q p) (cache c)"
    by (simp add: get_def Let_def)
  then show "map_of (cache (snd (get tg q p c))) (generateKey q p) = None"
    by (simp add: map_of_map_delete)
  assume "wf_cache c"
  with h have "length (map_delete (generateKey q p) (cache c)) = length (cache c) - 1"
    by (intro length_map_delete) (auto simp: wf_cache_def)
  moreover from h have "cache c \<noteq> []" by auto
  ultimately show "stats_size (getStats (snd (get tg q p c))) = stats_size (getStats c) - 1"
    using del by (cases "cache c") (simp_all add: getStats_def)
qed

theorem cache_ttl_witness:
  "(0::int) < 10 \<and> (5::int) - 0 \<le> 10
   \<and> fst (get 5 ''q'' JUndefined (set_entry 0 ''q'' (42::nat) JUndefined (Some 10) queryCache0))
       = Some (42, True)
   \<and> fst (get 11 ''q'' JUndefined (set_entry 0 ''q'' (42::nat) JUndefined (Some 10) queryCache0))
       = None
   \<and> stats_size (getStats (snd (get 11 ''q'' JUndefined
         (set_entry 0 ''q'' (42::nat) JUndefined (Some 10) queryCache0)))) = 0"
proof -
  let ?c = "set_entry 0 ''q'' (42::nat) JUndefined (Some 10) queryCache0"
  have c: "cache ?c = [(generateKey ''q'' JUndefined, \<lparr>data = 42, timestamp = 0, ttl = 10, hits = 0\<rparr>)]"
    by (simp add: set_entry_fields queryCache0_def new_QueryCache_def)
  have wf: "wf_cache ?c"
    by (simp add: wf_cache_def c)
  have m: "map_of (cache ?c) (generateKey ''q'' JUndefined)
             = Some \<lparr>data = 42, timestamp = 0, ttl = 10, hits = 0\<rparr>"
    by (simp add: c)
  from cache_ttl [of 10 5 0 "''q''" JUndefined "42::nat" queryCache0]
  have hit: "fst (get 5 ''q'' JUndefined ?c) = Some (42, True)" by simp
  from cache_ttl [where c = ?c and q = "''q''" and p = JUndefined and tg = 11
                     and e = "\<lparr>data = 42, timestamp = 0, ttl = 10, hits = 0\<rparr>"] m wf
  have miss: "fst (get 11 ''q'' JUndefined ?c) = None"
    and sz: "stats_size (getStats (snd (get 11 ''q'' JUndefined ?c))) = stats_size (getStats ?c) - 1"
    by simp_all
  have "stats_size (getStats ?c) = 1" by (simp add: getStats_def c)
  with hit miss sz show ?thesis by simp
qed

text \<open>
  Claim C6, as the code has it. When \<open>set\<close> is called on a cache that is at capacity
  (\<open>size >= maxSize\<close>) and not empty, the entry at the front of the map, the one inserted
  first, is removed and the new entry is then stored in what remains; below capacity
  nothing is removed. Filling a cache of capacity 5 with six distinct keys leaves the
  second to the sixth key: a lookup of the first is a miss, a lookup of the sixth within
  its time to live is a hit.
\<close>

theorem cache_eviction:
  "(wf_cache c \<and> maxSize c \<le> int (length (cache c)) \<and> cache c \<noteq> [] \<longrightarrow>
      cache (set_entry now q d p t c) =
        map_set (generateKey q p)
          \<lparr>data = d, timestamp = now,
           ttl = (case t of None \<Rightarrow> defaultTTL c | Some t' \<Rightarrow> if t' \<noteq> 0 then t' else defaultTTL c),
           hits = 0\<rparr> (tl (cache c))
      \<and> map_of (tl (cache c)) (fst (hd (cache c))) = None)
   \<and> (\<not> maxSize c \<le> int (length (cache c)) \<longrightarrow>
        cache (set_entry now q d p t c) =
          map_set (generateKey q p)
            \<lparr>data = d, timestamp = now,
             ttl = (case t of None \<Rightarrow> defaultTTL c | Some t' \<Rightarrow> if t' \<noteq> 0 then t' else defaultTTL c),
             hits = 0\<rparr> (cache c))
   \<and> (distinct (map (\<lambda>x. generateKey x p) [q1, q2, q3, q4, q5, q6]) \<longrightarrow>
        map fst (cache (set_entry t6 q6 d6 p None (set_entry t5 q5 d5 p None
          (set_entry t4 q4 d4 p None (set_entry t3 q3 d3 p None (set_entry t2 q2 d2 p None
          (set_entry t1 q1 d1 p None (new_QueryCache 5 dt))))))))
          = map (\<lambda>x. generateKey x p) [q2, q3, q4, q5, q6]
        \<and> fst (get now q1 p (set_entry t6 q6 d6 p None (set_entry t5 q5 d5 p None
          (set_entry t4 q4 d4 p None (set_entry t3 q3 d3 p None (set_entry t2 q2 d2 p None
          (set_entry t1 q1 d1 p None (new_QueryCache 5 dt)))))))) = None
        \<and> (now - t6 \<le> dt \<longrightarrow>
            fst (get now q6 p (set_entry t6 q6 d6 p None (set_entry t5 q5 d5 p None
              (set_entry t4 q4 d4 p None (set_entry t3 q3 d3 p None (set_entry t2 q2 d2 p None
              (set_entry t1 q1 d1 p None (new_QueryCache 5 dt)))))))) = Some (d6, True)))"
proof (intro conjI impI)
  assume h: "wf_cache c \<and> maxSize c \<le> int (length (cache c)) \<and> cache c \<noteq> []"
  then have ev: "evict_oldest (cache c) = tl (cache c)"
    by (intro evict_oldest_distinct) (auto simp: wf_cache_def)
  with h show "cache (set_entry now q d p t c) =
        map_set (generateKey q p)
          \<lparr>data = d, timestamp = now,
           ttl = (case t of None \<Rightarrow> defaultTTL c | Some t' \<Rightarrow> if t' \<noteq> 0 then t' else defaultTTL c),
           hits = 0\<rparr> (tl (cache c))"
    by (simp add: set_entry_fields)
  from h obtain x xs where c: "cache c = x # xs" by (cases "cache c") auto
  with h have "fst x \<notin> set (map fst xs)" by (simp add: wf_cache_def)
  then show "map_of (tl (cache c)) (fst (hd (cache c))) = None"
    by (simp add: c map_of_eq_None_iff)
next
  assume "\<not> maxSize c \<le> int (length (cache c))"
  then show "cache (set_entry now q d p t c) =
          map_set (generateKey q p)
            \<lparr>data = d, timestamp = now,
             ttl = (case t of None \<Rightarrow> defaultTTL c | Some t' \<Rightarrow> if t' \<noteq> 0 then t' else defaultTTL c),
             hits = 0\<rparr> (cache c)"
    by (simp add: set_entry_fields)
next
  assume dist: "distinct (map (\<lambda>x. generateKey x p) [q1, q2, q3, q4, q5, q6])"
  let ?e = "\<lambda>d t. \<lparr>data = d, timestamp = t, ttl = dt, hits = 0::int\<rparr>"
  let ?c5 = "set_entry t5 q5 d5 p None
          (set_entry t4 q4 d4 p None (set_entry t3 q3 d3 p None (set_entry t2 q2 d2 p None
          (set_entry t1 q1 d1 p None (new_QueryCache 5 dt)))))"
  have c5: "cache ?c5 = [(generateKey q1 p, ?e d1 t1), (generateKey q2 p, ?e d2 t2),
              (generateKey q3 p, ?e d3 t3), (generateKey q4 p, ?e d4 t4),
              (generateKey q5 p, ?e d5 t5)]"
    using dist by (auto simp: set_entry_fields new_QueryCache_def)
  have m5: "maxSize ?c5 = 5" "defaultTTL ?c5 = dt"
    by (simp_all add: set_entry_fields new_QueryCache_def)
  have c6: "cache (set_entry t6 q6 d6 p None ?c5) =
              [(generateKey q2 p, ?e d2 t2), (generateKey q3 p, ?e d3 t3),
               (generateKey q4 p, ?e d4 t4), (generateKey q5 p, ?e d5 t5),
               (generateKey q6 p, ?e d6 t6)]"
    using dist
    by (auto simp: set_entry_fields [of t6 q6 d6 p None ?c5] c5 m5 evict_oldest_def map_delete_def)
  show "map fst (cache (set_entry t6 q6 d6 p None ?c5))
          = map (\<lambda>x. generateKey x p) [q2, q3, q4, q5, q6]"
    by (simp add: c6)
  show "fst (get now q1 p (set_entry t6 q6 d6 p None ?c5)) = None"
    using dist by (auto simp: get_def c6)
  assume "now - t6 \<le> dt"
  then show "fst (get now q6 p (set_entry t6 q6 d6 p None ?c5)) = Some (d6, True)"
    using dist by (auto simp: get_def c6 Let_def)
qed

theorem cache_eviction_witness:
  "map fst (cache (set_entry 6 ''query-5'' (5::nat) JUndefined None
      (set_entry 5 ''query-4'' 4 JUndefined None (set_entry 4 ''query-3'' 3 JUndefined None
      (set_entry 3 ''query-2'' 2 JUndefined None (set_entry 2 ''query-1'' 1 JUndefined None
      (set_entry 1 ''query-0'' 0 JUndefined None (new_QueryCache 5 300000)))))))) =
     [''query-1:'', ''query-2:'', ''query-3:'', ''query-4:'', ''query-5:'']
   \<and> fst (get 7 ''query-0'' JUndefined (set_entry 6 ''query-5'' (5::nat) JUndefined None
      (set_entry 5 ''query-4'' 4 JUndefined None (set_entry 4 ''query-3'' 3 JUndefined None
      (set_entry 3 ''query-2'' 2 JUndefined None (set_entry 2 ''query-1'' 1 JUndefined None
      (set_entry 1 ''query-0'' 0 JUndefined None (new_QueryCache 5 300000)))))))) = None
   \<and> fst (get 7 ''query-5'' JUndefined (set_entry 6 ''query-5'' (5::nat) JUndefined None
      (set_entry 5 ''query-4'' 4 JUndefined None (set_entry 4 ''query-3'' 3 JUndefined None
      (set_entry 3 ''query-2'' 2 JUndefined None (set_entry 2 ''query-1'' 1 JUndefined None
      (set_entry 1 ''query-0'' 0 JUndefined None (new_QueryCache 5 300000)))))))) = Some (5, True)
   \<and> cache (set_entry 2 ''query-1'' (1::nat) JUndefined None
        (set_entry 1 ''query-0'' 0 JUndefined None (new_QueryCache 1 300000))) =
       [(''query-1:'', \<lparr>data = 1, timestamp = 2, ttl = 300000, hits = 0\<rparr>)]
   \<and> cache (set_entry 2 ''query-1'' (1::nat) JUndefined None
        (set_entry 1 ''query-0'' 0 JUndefined None (new_QueryCache 5 300000))) =
       [(''query-0:'', \<lparr>data = 0, timestamp = 1, ttl = 300000, hits = 0\<rparr>),
        (''query-1:'', \<lparr>data = 1, timestamp = 2, ttl = 300000, hits = 0\<rparr>)]"
proof -
  have k: "generateKey ''query-0'' JUndefined = ''query-0:''"
      "generateKey ''query-1'' JUndefined = ''query-1:''"
      "generateKey ''query-2'' JUndefined = ''query-2:''"
      "generateKey ''query-3'' JUndefined = ''query-3:''"
      "generateKey ''query-4'' JUndefined = ''query-4:''"
      "generateKey ''query-5'' JUndefined = ''query-5:''"
    by (simp_all add: generateKey_def normalized_def paramsKey_def trim_def toLowerCase_def
        lower_char_def isWhiteSpace_def replace_all_def)
  have dist: "distinct (map (\<lambda>x. generateKey x JUndefined)
      [''query-0'', ''query-1'', ''query-2'', ''query-3'', ''query-4'', ''query-5''])"
    by (simp add: k)
  let ?c1 = "set_entry 1 ''query-0'' (0::nat) JUndefined None (new_QueryCache 1 300000)"
  have c1: "cache ?c1 = [(''query-0:'', \<lparr>data = 0, timestamp = 1, ttl = 300000, hits = 0\<rparr>)]"
    by (simp add: set_entry_fields new_QueryCache_def k)
  have f1: "maxSize ?c1 = 1" "defaultTTL ?c1 = 300000"
    by (simp_all add: set_entry_fields new_QueryCache_def)
  have full: "wf_cache ?c1 \<and> maxSize ?c1 \<le> int (length (cache ?c1)) \<and> cache ?c1 \<noteq> []"
    by (simp add: wf_cache_def c1 f1)
  let ?d1 = "set_entry 1 ''query-0'' (0::nat) JUndefined None (new_QueryCache 5 300000)"
  have d1: "cache ?d1 = [(''query-0:'', \<lparr>data = 0, timestamp = 1, ttl = 300000, hits = 0\<rparr>)]"
    by (simp add: set_entry_fields new_QueryCache_def k)
  have g1: "maxSize ?d1 = 5" "defaultTTL ?d1 = 300000"
    by (simp_all add: set_entry_fields new_QueryCache_def)
  have room: "\<not> maxSize ?d1 \<le> int (length (cache ?d1))"
    by (simp add: d1 g1)
  let ?c6 = "set_entry 6 ''query-5'' (5::nat) JUndefined None
      (set_entry 5 ''query-4'' 4 JUndefined None (set_entry 4 ''query-3'' 3 JUndefined None
      (set_entry 3 ''query-2'' 2 JUndefined None (set_entry 2 ''query-1'' 1 JUndefined None
      (set_entry 1 ''query-0'' 0 JUndefined None (new_QueryCache 5 300000))))))"
  from dist cache_eviction [where p = JUndefined and dt = 300000 and now = 7
      and ?q1.0 = "''query-0''" and ?q2.0 = "''query-1''" and ?q3.0 = "''query-2''"
      and ?q4.0 = "''query-3''" and ?q5.0 = "''query-4''" and ?q6.0 = "''query-5''"
      and ?t1.0 = 1 and ?t2.0 = 2 and ?t3.0 = 3 and ?t4.0 = 4 and ?t5.0 = 5 and ?t6.0 = 6
      and ?d1.0 = "0::nat" and ?d2.0 = 1 and ?d3.0 = 2 and ?d4.0 = 3 and ?d5.0 = 4 and ?d6.0 = 5
      and c = ?c1 and q = "''query-1''" and d = "1::nat" and t = None]
  have s1: "map fst (cache ?c6) = map (\<lambda>x. generateKey x JUndefined)
              [''query-1'', ''query-2'', ''query-3'', ''query-4'', ''query-5'']"
    and s2: "fst (get 7 ''query-0'' JUndefined ?c6) = None"
    and s3: "(7::int) - 6 \<le> 300000 \<longrightarrow> fst (get 7 ''query-5'' JUndefined ?c6) = Some (5, True)"
    by blast+
  from full cache_eviction [where p = JUndefined and now = 2 and dt = 300000
      and c = ?c1 and q = "''query-1''" and d = "1::nat" and t = None
      and ?q1.0 = "''query-0''" and ?q2.0 = "''query-1''" and ?q3.0 = "''query-2''"
      and ?q4.0 = "''query-3''" and ?q5.0 = "''query-4''" and ?q6.0 = "''query-5''"
      and ?t1.0 = 1 and ?t2.0 = 2 and ?t3.0 = 3 and ?t4.0 = 4 and ?t5.0 = 5 and ?t6.0 = 6
      and ?d1.0 = "0::nat" and ?d2.0 = 1 and ?d3.0 = 2 and ?d4.0 = 3 and ?d5.0 = 4 and ?d6.0 = 5]
  have e1: "cache (set_entry 2 ''query-1'' (1::nat) JUndefined None ?c1) =
        map_set (generateKey ''query-1'' JUndefined)
          \<lparr>data = 1, timestamp = 2,
           ttl = (case None of None \<Rightarrow> defaultTTL ?c1
                  | Some t' \<Rightarrow> if t' \<noteq> 0 then t' else defaultTTL ?c1),
           hits = 0\<rparr> (tl (cache ?c1))"
    by blast
  from room cache_eviction [where p = JUndefined and now = 2 and dt = 300000
      and c = ?d1 and q = "''query-1''" and d = "1::nat" and t = None
      and ?q1.0 = "''query-0''" and ?q2.0 = "''query-1''" and ?q3.0 = "''query-2''"
      and ?q4.0 = "''query-3''" and ?q5.0 = "''query-4''" and ?q6.0 = "''query-5''"
      and ?t1.0 = 1 and ?t2.0 = 2 and ?t3.0 = 3 and ?t4.0 = 4 and ?t5.0 = 5 and ?t6.0 = 6
      and ?d1.0 = "0::nat" and ?d2.0 = 1 and ?d3.0 = 2 and ?d4.0 = 3 and ?d5.0 = 4 and ?d6.0 = 5]
  have e2: "cache (set_entry 2 ''query-1'' (1::nat) JUndefined None ?d1) =
        map_set (generateKey ''query-1'' JUndefined)
          \<lparr>data = 1, timestamp = 2,
           ttl = (case None of None \<Rightarrow> defaultTTL ?d1
                  | Some t' \<Rightarrow> if t' \<noteq> 0 then t' else defaultTTL ?d1),
           hits = 0\<rparr> (cache ?d1)"
    by blast
  have "map fst (cache ?c6) = [''query-1:'', ''query-2:'', ''query-3:'', ''query-4:'', ''query-5:'']"
    unfolding s1 by (simp add: k)
  moreover have "fst (get 7 ''query-5'' JUndefined ?c6) = Some (5, True)"
    using s3 by simp
  moreover have "cache (set_entry 2 ''query-1'' (1::nat) JUndefined None ?c1) =
       [(''query-1:'', \<lparr>data = 1, timestamp = 2, ttl = 300000, hits = 0\<rparr>)]"
    unfolding e1 c1 f1 k by simp
  moreover have "cache (set_entry 2 ''query-1'' (1::nat) JUndefined None ?d1) =
       [(''query-0:'', \<lparr>data = 0, timestamp = 1, ttl = 300000, hits = 0\<rparr>),
        (''query-1:'', \<lparr>data = 1, timestamp = 2, ttl = 300000, hits = 0\<rparr>)]"
    unfolding e2 d1 g1 k by simp
  ultimately show ?thesis using s2 by blast
qed

theorem cache_eviction_counterexample:
  "maxSize (new_QueryCache 0 300000 :: nat QueryCache)
     \<le> int (length (cache (new_QueryCache 0 300000 :: nat QueryCache)))
   \<and> cache (new_QueryCache 0 300000 :: nat QueryCache) = []
   \<and> length (cache (set_entry 0 ''a'' (1::nat) JUndefined None (new_QueryCache 0 300000))) = 1"
  by (simp add: set_entry_fields new_QueryCache_def evict_oldest_def)

subsection \<open>Cache keys\<close>









subsection \<open>Operations that return and the one that can raise\<close>





section \<open>Properties of the rate limiter\<close>

lemma isAllowed_fresh_five:
  assumes "t1 \<le> t2" "t2 \<le> t3" "t3 \<le> t4" "t4 \<le> t5" "t5 \<le> t6" "t6 - t1 < 1000"
  shows "isAllowed_calls [t1, t2, t3, t4, t5, t6] i (new_RateLimiter 5 1000) =
           ([True, True, True, True, True, False],
            \<lparr>requests = [i \<mapsto> [t1, t2, t3, t4, t5]], maxRequests = 5, windowMs = 1000\<rparr>)"
  using assms
  by (simp add: isAllowed_def validRequests_def userRequests_def new_RateLimiter_def)

text \<open>
  Claim C7. \<open>isAllowed\<close> counts the stored timestamps \<open>ts\<close> with
  \<open>now - ts < windowMs\<close>; it answers true exactly when that count is below
  \<open>maxRequests\<close>, and then stores the counted timestamps followed by \<open>now\<close>; otherwise
  it answers false and stores nothing. With \<open>maxRequests = 5\<close> and \<open>windowMs = 1000\<close>,
  five calls inside one window are admitted, the sixth is refused, and a call made once
  the window of the first request has elapsed is admitted again.
\<close>

theorem isAllowed_sliding_window:
  "fst (isAllowed now i rl) = (int (length (validRequests rl now i)) < maxRequests rl)
   \<and> (fst (isAllowed now i rl) \<longrightarrow>
        requests (snd (isAllowed now i rl)) i = Some (validRequests rl now i @ [now]))
   \<and> (\<not> fst (isAllowed now i rl) \<longrightarrow> snd (isAllowed now i rl) = rl)
   \<and> (t1 \<le> t2 \<and> t2 \<le> t3 \<and> t3 \<le> t4 \<and> t4 \<le> t5 \<and> t5 \<le> t6 \<and> t6 - t1 < 1000
        \<and> t7 - t1 \<ge> 1000 \<longrightarrow>
        fst (isAllowed_calls [t1, t2, t3, t4, t5, t6] i (new_RateLimiter 5 1000))
          = [True, True, True, True, True, False]
        \<and> fst (isAllowed t7 i
             (snd (isAllowed_calls [t1, t2, t3, t4, t5, t6] i (new_RateLimiter 5 1000)))))"
proof (intro conjI impI)
  show "fst (isAllowed now i rl) = (int (length (validRequests rl now i)) < maxRequests rl)"
    by (auto simp: isAllowed_def Let_def)
next
  assume "fst (isAllowed now i rl)"
  then show "requests (snd (isAllowed now i rl)) i = Some (validRequests rl now i @ [now])"
    by (auto simp: isAllowed_def Let_def split: if_splits)
next
  assume "\<not> fst (isAllowed now i rl)"
  then show "snd (isAllowed now i rl) = rl"
    by (auto simp: isAllowed_def Let_def split: if_splits)
next
  assume h: "t1 \<le> t2 \<and> t2 \<le> t3 \<and> t3 \<le> t4 \<and> t4 \<le> t5 \<and> t5 \<le> t6 \<and> t6 - t1 < 1000
             \<and> t7 - t1 \<ge> 1000"
  then have run: "isAllowed_calls [t1, t2, t3, t4, t5, t6] i (new_RateLimiter 5 1000) =
           ([True, True, True, True, True, False],
            \<lparr>requests = [i \<mapsto> [t1, t2, t3, t4, t5]], maxRequests = 5, windowMs = 1000\<rparr>)"
    by (intro isAllowed_fresh_five) auto
  show "fst (isAllowed_calls [t1, t2, t3, t4, t5, t6] i (new_RateLimiter 5 1000))
          = [True, True, True, True, True, False]"
    unfolding run by simp
  have "length (filter (\<lambda>ts. t7 - ts < 1000) [t2, t3, t4, t5]) \<le> 4"
    using length_filter_le [of "\<lambda>ts. t7 - ts < 1000" "[t2, t3, t4, t5]"] by simp
  with h show "fst (isAllowed t7 i
             (snd (isAllowed_calls [t1, t2, t3, t4, t5, t6] i (new_RateLimiter 5 1000))))"
    unfolding run by (simp add: isAllowed_def validRequests_def userRequests_def Let_def)
qed

theorem isAllowed_sliding_window_witness:
  "isAllowed_calls [0, 100, 200, 300, 400, 500] ''u'' (new_RateLimiter 5 1000) =
     ([True, True, True, True, True, False],
      \<lparr>requests = [''u'' \<mapsto> [0, 100, 200, 300, 400]], maxRequests = 5, windowMs = 1000\<rparr>)
   \<and> fst (isAllowed 1000 ''u''
        (snd (isAllowed_calls [0, 100, 200, 300, 400, 500] ''u'' (new_RateLimiter 5 1000))))
   \<and> \<not> fst (isAllowed 500 ''u''
        (snd (isAllowed_calls [0, 100, 200, 300, 400] ''u'' (new_RateLimiter 5 1000))))
   \<and> snd (isAllowed 500 ''u''
        (snd (isAllowed_calls [0, 100, 200, 300, 400] ''u'' (new_RateLimiter 5 1000))))
      = snd (isAllowed_calls [0, 100, 200, 300, 400] ''u'' (new_RateLimiter 5 1000))"
proof -
  have run: "isAllowed_calls [0, 100, 200, 300, 400, 500] ''u'' (new_RateLimiter 5 1000) =
     ([True, True, True, True, True, False],
      \<lparr>requests = [''u'' \<mapsto> [0, 100, 200, 300, 400]], maxRequests = 5, windowMs = 1000\<rparr>)"
    by (simp add: isAllowed_def validRequests_def userRequests_def new_RateLimiter_def)
  have run5: "isAllowed_calls [0, 100, 200, 300, 400] ''u'' (new_RateLimiter 5 1000) =
     ([True, True, True, True, True],
      \<lparr>requests = [''u'' \<mapsto> [0, 100, 200, 300, 400]], maxRequests = 5, windowMs = 1000\<rparr>)"
    by (simp add: isAllowed_def validRequests_def userRequests_def new_RateLimiter_def)
  have refused: "\<not> fst (isAllowed 500 ''u''
        (snd (isAllowed_calls [0, 100, 200, 300, 400] ''u'' (new_RateLimiter 5 1000))))"
    unfolding run5 by (simp add: isAllowed_def validRequests_def userRequests_def)
  from isAllowed_sliding_window
         [of 500 "''u''" "snd (isAllowed_calls [0, 100, 200, 300, 400] ''u'' (new_RateLimiter 5 1000))"
             0 100 200 300 400 500 1000]
  show ?thesis using refused unfolding run run5 by simp
qed

text \<open>
  Claim C10. A call of \<open>isAllowed\<close> that answers false returns the limiter exactly as
  it was given: neither the refused attempt nor the purged copy of the window is stored.
  \<open>getRemainingRequests\<close> returns the limiter unchanged for every input.
\<close>

theorem isAllowed_denied_frame:
  "(\<not> fst (isAllowed now i rl) \<longrightarrow> snd (isAllowed now i rl) = rl)
   \<and> snd (getRemainingRequests now j rl) = rl"
  by (auto simp: isAllowed_def getRemainingRequests_def Let_def split: if_splits)

theorem isAllowed_denied_frame_witness:
  "\<not> fst (isAllowed 1500 ''u''
       \<lparr>requests = [''u'' \<mapsto> [0, 600, 700]], maxRequests = 2, windowMs = 1000\<rparr>)
   \<and> snd (isAllowed 1500 ''u''
       \<lparr>requests = [''u'' \<mapsto> [0, 600, 700]], maxRequests = 2, windowMs = 1000\<rparr>)
     = \<lparr>requests = [''u'' \<mapsto> [0, 600, 700]], maxRequests = 2, windowMs = 1000\<rparr>
   \<and> requests (snd (isAllowed 1500 ''u''
       \<lparr>requests = [''u'' \<mapsto> [0, 600, 700]], maxRequests = 2, windowMs = 1000\<rparr>)) ''u''
     = Some [0, 600, 700]"
proof -
  have d: "\<not> fst (isAllowed 1500 ''u''
       \<lparr>requests = [''u'' \<mapsto> [0, 600, 700]], maxRequests = 2, windowMs = 1000\<rparr>)"
    by (simp add: isAllowed_def validRequests_def userRequests_def)
  from isAllowed_denied_frame
         [of 1500 "''u''" "\<lparr>requests = [''u'' \<mapsto> [0, 600, 700]], maxRequests = 2, windowMs = 1000\<rparr>"]
  show ?thesis using d by simp
qed

section \<open>Properties of the injection detector\<close>

lemma detect_unsafe:
  assumes "(r, src) \<in> set dangerousPatterns" "test True r query"
  shows "\<not> safe (detectSQLInjection query)"
proof -
  from assms have "(r, src) \<in> set (filter (\<lambda>p. test True (fst p) query) dangerousPatterns)"
    by simp
  then have "filter (\<lambda>p. test True (fst p) query) dangerousPatterns \<noteq> []"
    by (metis empty_iff empty_set)
  then show ?thesis by (simp add: detectSQLInjection_def Let_def)
qed

lemma stacked_drop_found:
  "test True (cat [Str '';'', Star Space,
          alts [Str ''drop'', Str ''delete'', Str ''truncate'', Str ''alter'', Str ''create'',
                Str ''grant'', Str ''revoke'']]) (pre @ ''; DROP TABLE users'' @ post)"
proof -
  let ?r = "cat [Str '';'', Star Space,
          alts [Str ''drop'', Str ''delete'', Str ''truncate'', Str ''alter'', Str ''create'',
                Str ''grant'', Str ''revoke'']]"
  have "ctx_free ?r" by simp
  moreover have "rmatch True ?r (None, ''; DROP'') \<noteq> []"
    by (simp add: rx_eval)
  ultimately have "test True ?r (pre @ ''; DROP'' @ ('' TABLE users'' @ post))"
    by (rule test_contains)
  then show ?thesis by simp
qed

text \<open>
  Claim C8. \<open>detectSQLInjection\<close> answers \<open>safe = false\<close> for
  \<open>SELECT * FROM t WHERE x=1 UNION SELECT password FROM admin\<close> and for every input that
  contains \<open>; DROP TABLE users\<close>, and it answers \<open>safe = true\<close> with no errors (and no
  warnings) for \<open>SELECT name, email FROM employees WHERE department = 'Sales'\<close>.
\<close>

theorem detectSQLInjection_examples:
  "\<not> safe (detectSQLInjection ''SELECT * FROM t WHERE x=1 UNION SELECT password FROM admin'')
   \<and> \<not> safe (detectSQLInjection (pre @ ''; DROP TABLE users'' @ post))
   \<and> detectSQLInjection
        (''SELECT name, email FROM employees WHERE department = '' @ [squote] @ ''Sales'' @ [squote])
       = \<lparr>safe = True, errors = [], warnings = []\<rparr>"
proof (intro conjI)
  let ?u = "cat [Str ''union'', Plus Space, Opt (cat [Str ''all'', Plus Space]), Str ''select'']"
  have "test True ?u ''SELECT * FROM t WHERE x=1 UNION SELECT password FROM admin''"
    by (simp add: rx_eval)
  moreover have "(?u, ''union'' @ [bsl] @ ''s+(all'' @ [bsl] @ ''s+)?select'') \<in> set dangerousPatterns"
    by (simp add: dangerousPatterns_def)
  ultimately show
    "\<not> safe (detectSQLInjection ''SELECT * FROM t WHERE x=1 UNION SELECT password FROM admin'')"
    by (rule detect_unsafe [rotated])
next
  let ?r = "cat [Str '';'', Star Space,
          alts [Str ''drop'', Str ''delete'', Str ''truncate'', Str ''alter'', Str ''create'',
                Str ''grant'', Str ''revoke'']]"
  have "(?r, '';'' @ [bsl] @ ''s*(drop|delete|truncate|alter|create|grant|revoke)'')
          \<in> set dangerousPatterns"
    by (simp add: dangerousPatterns_def)
  then show "\<not> safe (detectSQLInjection (pre @ ''; DROP TABLE users'' @ post))"
    using stacked_drop_found by (rule detect_unsafe)
next
  let ?q = "''SELECT name, email FROM employees WHERE department = '' @ [squote] @ ''Sales'' @ [squote]"
  have e: "filter (\<lambda>p. test True (fst p) ?q) dangerousPatterns = []"
    by (simp add: dangerousPatterns_def rx_eval cong: filter_weak_cong)
  have w: "filter (\<lambda>p. test True (fst p) ?q) suspiciousPatterns = []"
    by (simp add: suspiciousPatterns_def rx_eval cong: filter_weak_cong)
  show "detectSQLInjection ?q = \<lparr>safe = True, errors = [], warnings = []\<rparr>"
    by (simp only: detectSQLInjection_def Let_def e w) simp
qed

theorem detectSQLInjection_examples_witness:
  "\<not> safe (detectSQLInjection ''SELECT * FROM users; DROP TABLE users; --'')
   \<and> errors (detectSQLInjection ''SELECT * FROM users; DROP TABLE users; --'')
       = [''Detected dangerous SQL pattern: ;'' @ [bsl]
            @ ''s*(drop|delete|truncate|alter|create|grant|revoke)'']"
proof -
  let ?q = "''SELECT * FROM users; DROP TABLE users; --''"
  have e: "filter (\<lambda>p. test True (fst p) ?q) dangerousPatterns =
      [(cat [Str '';'', Star Space,
          alts [Str ''drop'', Str ''delete'', Str ''truncate'', Str ''alter'', Str ''create'',
                Str ''grant'', Str ''revoke'']],
        '';'' @ [bsl] @ ''s*(drop|delete|truncate|alter|create|grant|revoke)'')]"
    by (simp add: dangerousPatterns_def rx_eval cong: filter_weak_cong)
  have "errors (detectSQLInjection ?q)
       = [''Detected dangerous SQL pattern: ;'' @ [bsl]
            @ ''s*(drop|delete|truncate|alter|create|grant|revoke)'']"
    by (simp only: detectSQLInjection_def Let_def e) simp
  with detectSQLInjection_examples [of "''SELECT * FROM users''" "''; --''"]
  show ?thesis by simp
qed

section \<open>Properties of the pagination\<close>

lemma show_int_small:
  "show_int 0 = ''0''" "show_int 1 = ''1''" "show_int 2 = ''2''" "show_int 10 = ''10''"
  "show_int 25 = ''25''" "show_int 50 = ''50''" "show_int 1000 = ''1000''"
  by (simp_all add: show_int_def show_nat.simps digit_char_def)





section \<open>Properties of the pipeline\<close>

lemma sql_addIndexHints: "sql (addIndexHints s ti) = s"
  by (simp add: addIndexHints_def Let_def split: option.splits)

lemma pagination_optimizeQuery:
  "pagination (optimizeQuery s (pipeline_options w p n)) =
     pagination (paginateQuery s \<lparr>page = Some p, pageSize = Some n\<rparr>)"
  by (simp add: optimizeQuery_def pipeline_options_def Let_def)

lemma pagination_paginateQuery: "pagination (paginateQuery s pg) \<noteq> None"
  by (simp add: paginateQuery_def Let_def)

lemma safe_starts_with_select:
  "safe (validateQuerySecurity s) \<Longrightarrow>
   startsWith (toUpperCase (trim s)) ''SELECT'' \<or> startsWith (toUpperCase (trim s)) ''WITH''"
  by (simp add: validateQuerySecurity_def enforceReadOnly_def Let_def split: if_splits)

lemma safe_not_empty: "safe (validateQuerySecurity s) \<Longrightarrow> s \<noteq> []"
  by (auto dest!: safe_starts_with_select simp: trim_def toUpperCase_def startsWith_def)

text \<open>A request that misses the cache goes through \<open>run_pipeline\<close>.\<close>

lemma POST_pipeline:
  assumes "cache_missed w srv rq"
  obtains query srv2 where
    "rq_query rq = Some query"
    "POST w srv rq = run_pipeline w srv2 query (page_of rq) (pageSize_of rq)
                       (rq_enableCache rq \<noteq> Some False)"
    "set (cache (responses srv2)) \<subseteq> set (cache (responses srv))"
proof -
  from assms obtain query where q: "rq_query rq = Some query" "trim query \<noteq> []"
    by (auto simp: cache_missed_def split: option.splits)
  let ?user = "case rq_userId rq of None \<Rightarrow> ''anonymous'' | Some u \<Rightarrow> u"
  let ?params = "JObj [(''page'', JNum (page_of rq)), (''pageSize'', JNum (pageSize_of rq))]"
  let ?srv1 = "srv\<lparr>limiter := snd (isAllowed (w_now_rate w) ?user (limiter srv))\<rparr>"
  from assms q have allowed: "fst (isAllowed (w_now_rate w) ?user (limiter srv))"
    by (simp add: cache_missed_def)
  from assms q have miss: "rq_enableCache rq = Some False
      \<or> fst (get (w_now_get w) query ?params (responses srv)) = None"
    by (simp add: cache_missed_def)
  show thesis
  proof (cases "rq_enableCache rq = Some False")
    case True
    with q allowed have "POST w srv rq = run_pipeline w ?srv1 query (page_of rq) (pageSize_of rq)
                       (rq_enableCache rq \<noteq> Some False)"
      by (simp add: POST_def Let_def page_of_def pageSize_of_def del: stringify.simps)
    with q(1) show thesis by (rule that) simp
  next
    case False
    with miss have m: "fst (get (w_now_get w) query ?params (responses srv)) = None" by simp
    from False have en: "(case rq_enableCache rq of None \<Rightarrow> True | Some b \<Rightarrow> b)"
      by (cases "rq_enableCache rq") auto
    let ?srv2 = "?srv1\<lparr>responses := snd (get (w_now_get w) query ?params (responses srv))\<rparr>"
    from q allowed m en False have "POST w srv rq = run_pipeline w ?srv2 query (page_of rq) (pageSize_of rq)
                       (rq_enableCache rq \<noteq> Some False)"
      by (simp add: POST_def Let_def page_of_def pageSize_of_def del: stringify.simps)
    moreover from m have "set (cache (responses ?srv2)) \<subseteq> set (cache (responses srv))"
      by (auto simp: get_def Let_def map_delete_def split: option.splits if_splits
          simp del: stringify.simps)
    ultimately show thesis using q(1) that by blast
  qed
qed

subsection \<open>The response object\<close>



lemma response_body_fields:
  "field (response_body w c s sec opt rows n qc) ''success'' = Some (JBool True)"
  "field (response_body w c s sec opt rows n qc) ''structured_results''
     = (if rows = [] then None else Some (JArr rows))"
  "field (response_body w c s sec opt rows n qc) ''document_results''
     = (if fst (document_stage w c) = [] then None else Some (JArr (fst (document_stage w c))))"
  "field (response_body w c s sec opt rows n qc) ''sql'' = (if s = [] then None else Some (JStr s))"
  "field (response_body w c s sec opt rows n qc) ''document_warning'' = None"
  by (simp_all add: response_body_def field_def Let_def split: option.splits)


subsection \<open>The paths through \<open>run_pipeline\<close>\<close>


lemma run_pipeline_unsafe:
  assumes "classifyQuery w = Structured \<or> classifyQuery w = Hybrid"
    and "\<not> safe (validateQuerySecurity (generateSQL w))"
  shows "run_pipeline w srv q p n ec =
     \<lparr>status = 400,
      body = [(''success'', JBool False), (''error'', JStr ''Query failed security validation''),
              (''details'', json_strings (errors (validateQuerySecurity (generateSQL w))))],
      executed = [], after = srv\<rparr>"
  using assms by (auto simp: run_pipeline_def Let_def simp del: stringify.simps)

lemma run_pipeline_structured:
  assumes c: "classifyQuery w = Structured \<or> classifyQuery w = Hybrid"
    and ok: "safe (validateQuerySecurity (generateSQL w))"
    and rows: "w_run_query w (sql (optimizeQuery (generateSQL w) (pipeline_options w p n))) = Inr rows"
    and cnt: "w_run_count w (count_query (generateSQL w)) = Inr tc"
  shows "run_pipeline w srv q p n ec =
     finish w srv q (JObj [(''page'', JNum p), (''pageSize'', JNum n)]) ec
       [sql (optimizeQuery (generateSQL w) (pipeline_options w p n)), count_query (generateSQL w)]
       (response_body w (classifyQuery w) (generateSQL w) (validateQuerySecurity (generateSQL w))
          (Some (optimizeQuery (generateSQL w) (pipeline_options w p n))) rows tc
          (responses srv))"
proof -
  from ok have ne: "generateSQL w \<noteq> []" by (rule safe_not_empty)
  have pg: "pagination (optimizeQuery (generateSQL w) (pipeline_options w p n)) \<noteq> None"
    by (simp add: pagination_optimizeQuery pagination_paginateQuery)
  from c ok ne pg rows cnt show ?thesis
    by (auto simp: run_pipeline_def Let_def simp del: stringify.simps)
qed

lemma run_pipeline_query_fails:
  assumes c: "classifyQuery w = Structured \<or> classifyQuery w = Hybrid"
    and ok: "safe (validateQuerySecurity (generateSQL w))"
    and rows: "w_run_query w (sql (optimizeQuery (generateSQL w) (pipeline_options w p n))) = Inl err"
  shows "status (run_pipeline w srv q p n ec) = 500
     \<and> executed (run_pipeline w srv q p n ec)
         = [sql (optimizeQuery (generateSQL w) (pipeline_options w p n))]
     \<and> after (run_pipeline w srv q p n ec) = srv"
proof -
  from ok have ne: "generateSQL w \<noteq> []" by (rule safe_not_empty)
  from c ok ne rows show ?thesis
    by (auto simp: run_pipeline_def Let_def simp del: stringify.simps)
qed

lemma run_pipeline_count_fails:
  assumes c: "classifyQuery w = Structured \<or> classifyQuery w = Hybrid"
    and ok: "safe (validateQuerySecurity (generateSQL w))"
    and rows: "w_run_query w (sql (optimizeQuery (generateSQL w) (pipeline_options w p n))) = Inr rows"
    and cnt: "w_run_count w (count_query (generateSQL w)) = Inl err"
  shows "status (run_pipeline w srv q p n ec) = 500
     \<and> executed (run_pipeline w srv q p n ec)
         = [sql (optimizeQuery (generateSQL w) (pipeline_options w p n)), count_query (generateSQL w)]
     \<and> after (run_pipeline w srv q p n ec) = srv"
proof -
  from ok have ne: "generateSQL w \<noteq> []" by (rule safe_not_empty)
  have pg: "pagination (optimizeQuery (generateSQL w) (pipeline_options w p n)) \<noteq> None"
    by (simp add: pagination_optimizeQuery pagination_paginateQuery)
  from c ok ne pg rows cnt show ?thesis
    by (auto simp: run_pipeline_def Let_def simp del: stringify.simps)
qed

subsection \<open>A failed document search and a search without matches\<close>

lemma no_documents_same [simp]:
  "classifyQuery (no_documents w) = classifyQuery w"
  "generateSQL (no_documents w) = generateSQL w"
  "pipeline_options (no_documents w) p n = pipeline_options w p n"
  "finish (no_documents w) = finish w"
  "hit_body (no_documents w) = hit_body w"
  "w_run_query (no_documents w) = w_run_query w"
  "w_run_count (no_documents w) = w_run_count w"
  "w_now_rate (no_documents w) = w_now_rate w"
  "w_now_get (no_documents w) = w_now_get w"
  "t_cache_check (no_documents w) = t_cache_check w"
  "t_classification (no_documents w) = t_classification w"
  "t_security_check (no_documents w) = t_security_check w"
  "t_sql_generation (no_documents w) = t_sql_generation w"
  "t_optimization (no_documents w) = t_optimization w"
  "t_sql_execution (no_documents w) = t_sql_execution w"
  "t_total (no_documents w) = t_total w"
  by (simp_all add: no_documents_def classifyQuery_def generateSQL_def pipeline_options_def
      finish_def hit_body_def fun_eq_iff)





lemma no_documents_search:
  "w_embed (no_documents w) = Inr ()" "w_search (no_documents w) = Inr []"
  by (simp_all add: no_documents_def)


subsection \<open>A failed or unusable SQL generation\<close>

lemma sql_optimizeQuery:
  "sql (optimizeQuery s (pipeline_options w p n)) =
     addQueryTimeout
       (sql (optimizeSelectStar (sql (paginateQuery s \<lparr>page = Some p, pageSize = Some n\<rparr>))
               (w_tableColumns w))) 30000"
  by (simp add: optimizeQuery_def pipeline_options_def Let_def sql_addIndexHints)

lemma generation_unusable:
  assumes miss: "cache_missed w srv rq"
    and c: "classifyQuery w = Structured \<or> classifyQuery w = Hybrid"
    and gen: "w_generate w = Inr reply"
    and ns: "\<not> startsWith (toUpperCase (trim (strip_fences reply))) ''SELECT''"
    and nw: "\<not> startsWith (toUpperCase (trim (strip_fences reply))) ''WITH''"
  shows "status (POST w srv rq) = 400
   \<and> executed (POST w srv rq) = []
   \<and> field (body (POST w srv rq)) ''error'' = Some (JStr ''Query failed security validation'')
   \<and> field (body (POST w srv rq)) ''success'' = Some (JBool False)
   \<and> set (cache (responses (after (POST w srv rq)))) \<subseteq> set (cache (responses srv))"
proof -
  from miss obtain query srv2 where
    post: "POST w srv rq = run_pipeline w srv2 query (page_of rq) (pageSize_of rq)
                       (rq_enableCache rq \<noteq> Some False)"
    and sub: "set (cache (responses srv2)) \<subseteq> set (cache (responses srv))"
    by (rule POST_pipeline)
  from gen have g: "generateSQL w = strip_fences reply" by (simp add: generateSQL_def)
  from ns nw have "\<not> safe (validateQuerySecurity (generateSQL w))"
    unfolding g by (blast dest: safe_starts_with_select)
  from run_pipeline_unsafe [OF c this] sub show ?thesis
    by (simp add: post field_def)
qed

lemma generation_error:
  assumes miss: "cache_missed w srv rq"
    and c: "classifyQuery w = Structured \<or> classifyQuery w = Hybrid"
    and gen: "w_generate w = Inl err"
    and ok: "safe (validateQuerySecurity fallback_sql)"
  shows "generateSQL w = fallback_sql
   \<and> (status (POST w srv rq) = 200 \<or> status (POST w srv rq) = 500)
   \<and> executed (POST w srv rq) \<noteq> []
   \<and> hd (executed (POST w srv rq))
       = sql (optimizeQuery fallback_sql (pipeline_options w (page_of rq) (pageSize_of rq)))
   \<and> (status (POST w srv rq) = 200 \<longrightarrow>
        field (body (POST w srv rq)) ''sql'' = Some (JStr fallback_sql)
        \<and> field (body (POST w srv rq)) ''success'' = Some (JBool True))
   \<and> (w_run_query w (sql (optimizeQuery fallback_sql
                            (pipeline_options w (page_of rq) (pageSize_of rq)))) = Inr rows
        \<and> w_run_count w (count_query fallback_sql) = Inr tc \<longrightarrow>
        status (POST w srv rq) = 200
        \<and> executed (POST w srv rq)
            = [sql (optimizeQuery fallback_sql (pipeline_options w (page_of rq) (pageSize_of rq))),
               count_query fallback_sql]
        \<and> field (body (POST w srv rq)) ''structured_results''
            = (if rows = [] then None else Some (JArr rows)))"
proof -
  from miss obtain query srv2 where
    post: "POST w srv rq = run_pipeline w srv2 query (page_of rq) (pageSize_of rq)
                       (rq_enableCache rq \<noteq> Some False)"
    by (rule POST_pipeline)
  from gen have g: "generateSQL w = fallback_sql" by (simp add: generateSQL_def)
  from ok have ok': "safe (validateQuerySecurity (generateSQL w))" by (simp add: g)
  let ?opt = "sql (optimizeQuery fallback_sql (pipeline_options w (page_of rq) (pageSize_of rq)))"
  have ne: "fallback_sql \<noteq> []" by (simp add: fallback_sql_def)
  show ?thesis
  proof (cases "w_run_query w ?opt")
    case (Inl e)
    then have "w_run_query w (sql (optimizeQuery (generateSQL w)
                 (pipeline_options w (page_of rq) (pageSize_of rq)))) = Inl e"
      by (simp add: g)
    from run_pipeline_query_fails [OF c ok' this, of srv2 query "rq_enableCache rq \<noteq> Some False"] Inl
    show ?thesis by (simp add: post g)
  next
    case (Inr rs)
    then have r: "w_run_query w (sql (optimizeQuery (generateSQL w)
                 (pipeline_options w (page_of rq) (pageSize_of rq)))) = Inr rs"
      by (simp add: g)
    show ?thesis
    proof (cases "w_run_count w (count_query fallback_sql)")
      case (Inl e)
      then have "w_run_count w (count_query (generateSQL w)) = Inl e" by (simp add: g)
      from run_pipeline_count_fails [OF c ok' r this, of srv2 query "rq_enableCache rq \<noteq> Some False"]
        Inl Inr
      show ?thesis by (simp add: post g)
    next
      case (Inr total_count)
      then have "w_run_count w (count_query (generateSQL w)) = Inr total_count" by (simp add: g)
      from run_pipeline_structured [OF c ok' r this, of srv2 query "rq_enableCache rq \<noteq> Some False"]
        Inr \<open>w_run_query w ?opt = Inr rs\<close> ne
      show ?thesis by (simp add: post g finish_def response_body_fields)
    qed
  qed
qed

lemma generation_error_same:
  assumes gen: "w_generate w = Inl err" and clean: "strip_fences fallback_sql = fallback_sql"
  shows "POST w srv rq = POST (w\<lparr>w_generate := Inr fallback_sql\<rparr>) srv rq"
proof -
  let ?w = "w\<lparr>w_generate := Inr fallback_sql\<rparr>"
  have g: "generateSQL ?w = generateSQL w"
    using gen clean by (simp add: generateSQL_def)
  have ds: "document_stage ?w = document_stage w"
    by (simp add: document_stage_def fun_eq_iff split: sum.splits)
  have same: "classifyQuery ?w = classifyQuery w" "pipeline_options ?w = pipeline_options w"
      "finish ?w = finish w" "hit_body ?w = hit_body w" "response_body ?w = response_body w"
    by (simp_all add: classifyQuery_def pipeline_options_def finish_def hit_body_def
        response_body_def ds fun_eq_iff Let_def
        cong: if_cong option.case_cong sum.case_cong)
  have "run_pipeline ?w = run_pipeline w"
    by (simp add: run_pipeline_def Let_def g same fun_eq_iff del: stringify.simps
        cong: sum.case_cong option.case_cong if_cong)
  then show ?thesis
    by (simp add: POST_def Let_def same del: stringify.simps split: option.splits)
qed

subsection \<open>The fallback query of \<open>generateSQL\<close>\<close>

lemma fallback_sql_text:
  "fallback_sql = ''SELECT * FROM '' @ [dquote] @ ''Document'' @ [dquote] @ '' LIMIT 10''"
  by (simp add: fallback_sql_def)

lemma strip_fences_fallback: "strip_fences fallback_sql = fallback_sql"
  by (simp add: strip_fences_def fallback_sql_def fence_rx_def fence_sql_rx_def rx_eval trim_def)

lemma detect_fallback:
  "detectSQLInjection fallback_sql = \<lparr>safe = True, errors = [], warnings = []\<rparr>"
proof -
  have e: "filter (\<lambda>p. test True (fst p) fallback_sql) dangerousPatterns = []"
    by (simp add: fallback_sql_def dangerousPatterns_def rx_eval cong: filter_weak_cong)
  have w: "filter (\<lambda>p. test True (fst p) fallback_sql) suspiciousPatterns = []"
    by (simp add: fallback_sql_def suspiciousPatterns_def rx_eval cong: filter_weak_cong)
  show ?thesis by (simp only: detectSQLInjection_def Let_def e w) simp
qed

lemma enforce_fallback:
  "enforceReadOnly fallback_sql = \<lparr>safe = True, errors = [], warnings = []\<rparr>"
proof -
  have e: "filter (\<lambda>op. test True (write_pattern op) fallback_sql) writeOperations = []"
    by (simp add: fallback_sql_def writeOperations_def write_pattern_def rx_eval
        cong: filter_weak_cong)
  have s: "startsWith (toUpperCase (trim fallback_sql)) ''SELECT''"
    by (simp add: fallback_sql_def string_eval)
  have st: "filter (\<lambda>s. trim s \<noteq> []) (split_char (CHR '';'') fallback_sql) = [fallback_sql]"
    by (simp add: fallback_sql_def trim_def isWhiteSpace_def)
  show ?thesis by (simp only: enforceReadOnly_def Let_def e s st) simp
qed

lemma structure_fallback:
  "validateQueryStructure fallback_sql = \<lparr>safe = True, errors = [], warnings = []\<rparr>"
proof -
  have q1: "match_count False (A (Chr squote)) fallback_sql = 0"
    by (simp add: fallback_sql_def rx_eval)
  have q2: "match_count False (A (Chr dquote)) fallback_sql = 2"
    by (simp add: fallback_sql_def rx_eval)
  have pw: "paren_walk 0 fallback_sql = (0, False)"
    by (simp add: fallback_sql_def)
  have sc: "match_count True (cat [WordB, Str ''select'', WordB]) fallback_sql = 1"
    by (simp add: fallback_sql_def rx_eval)
  have jc: "match_count True (cat [WordB, Str ''join'', WordB]) fallback_sql = 0"
    by (simp add: fallback_sql_def rx_eval)
  have len: "length fallback_sql = 33" by (simp add: fallback_sql_def)
  show ?thesis by (simp only: validateQueryStructure_def Let_def q1 q2 pw sc jc len) simp
qed

lemma validate_fallback:
  "validateQuerySecurity fallback_sql = \<lparr>safe = True, errors = [], warnings = []\<rparr>"
  by (simp add: validateQuerySecurity_def detect_fallback enforce_fallback structure_fallback)

lemma fallback_optimized:
  "sql (optimizeQuery fallback_sql (pipeline_options w 1 50)) =
     ''SET LOCAL statement_timeout = 30000; SELECT * FROM '' @ [dquote] @ ''Document'' @ [dquote]
       @ [newline] @ ''LIMIT 50 OFFSET 0''"
proof -
  let ?p = "''SELECT * FROM '' @ [dquote] @ ''Document'' @ [dquote] @ [newline] @ ''LIMIT 50 OFFSET 0''"
  have c: "cleanedSql fallback_sql = ''SELECT * FROM '' @ [dquote] @ ''Document'' @ [dquote]"
    by (simp add: cleanedSql_def fallback_sql_def limit_rx_def offset_rx_def semicolon_end_rx_def
        rx_eval trim_def)
  have p: "sql (paginateQuery fallback_sql \<lparr>page = Some 1, pageSize = Some 50\<rparr>) = ?p"
    by (simp add: paginateQuery_def Let_def c show_int_small)
  have f: "find_parts True from_parts ?p = None"
    by (simp add: find_parts_def from_parts_def rx_eval)
  have s: "sql (optimizeSelectStar ?p (w_tableColumns w)) = ?p"
    by (simp only: optimizeSelectStar_def Let_def f) simp
  have t: "show_int 30000 = ''30000''"
    by (simp add: show_int_def show_nat.simps digit_char_def)
  show ?thesis
    by (simp only: sql_optimizeQuery p s) (simp add: addQueryTimeout_def t)
qed

subsection \<open>The sample request\<close>

lemma sample_cache_missed: "cache_missed w fresh_server sample_request"
  by (simp add: cache_missed_def fresh_server_def sample_request_def trim_def isWhiteSpace_def
      isAllowed_def userRequests_def validRequests_def new_RateLimiter_def get_def queryCache0_def
      new_QueryCache_def Let_def)

lemma sample_page: "page_of sample_request = 1" "pageSize_of sample_request = 50"
  by (simp_all add: page_of_def pageSize_of_def sample_request_def)

lemma classify_structured: "w_classify w = Inr ''structured'' \<Longrightarrow> classifyQuery w = Structured"
  by (simp add: classifyQuery_def Let_def string_eval)


lemma strip_fences_prose:
  "strip_fences ''I cannot answer that.'' = ''I cannot answer that.''"
  by (simp add: strip_fences_def fence_rx_def fence_sql_rx_def rx_eval trim_def)

lemma prose_not_select:
  "\<not> startsWith (toUpperCase (trim ''I cannot answer that.'')) ''SELECT''"
  "\<not> startsWith (toUpperCase (trim ''I cannot answer that.'')) ''WITH''"
  by (simp_all add: string_eval)








subsection \<open>What a failed SQL generation does to the request\<close>

text \<open>
  Claim C1, as the route behaves. A request that missed the cache and is classified
  structured or hybrid:

  \<^item> when anything in the \<open>try\<close> block of \<open>generateSQL\<close> throws, the request is not fatal:
    the fixed query \<open>SELECT * FROM "Document" LIMIT 10\<close> takes the place of the generated
    one, passes the security validation, is optimized and is the first statement sent
    to the database; the response has status 200 or, when the database refuses a
    statement, 500; with status 200 it reports success and names the fixed query in
    \<open>sql\<close>; the whole response is the one of a generation that returned the fixed
    query itself;

  \<^item> when the generation returns text that, freed of code fences and trimmed, begins
    with neither \<open>SELECT\<close> nor \<open>WITH\<close>, the request is fatal: status 400 with the error
    \<open>Query failed security validation\<close>, no statement is sent to the database and
    nothing is added to the cache.
\<close>

theorem generation_failure_handling:
  assumes miss: "cache_missed w srv rq"
    and c: "classifyQuery w = Structured \<or> classifyQuery w = Hybrid"
  shows "(\<forall>err. w_generate w = Inl err \<longrightarrow>
            generateSQL w = fallback_sql
          \<and> safe (validateQuerySecurity (generateSQL w))
          \<and> (status (POST w srv rq) = 200 \<or> status (POST w srv rq) = 500)
          \<and> executed (POST w srv rq) \<noteq> []
          \<and> hd (executed (POST w srv rq))
               = sql (optimizeQuery fallback_sql (pipeline_options w (page_of rq) (pageSize_of rq)))
          \<and> (status (POST w srv rq) = 200 \<longrightarrow>
                field (body (POST w srv rq)) ''sql'' = Some (JStr fallback_sql)
              \<and> field (body (POST w srv rq)) ''success'' = Some (JBool True))
          \<and> (\<forall>rows tc.
                w_run_query w (sql (optimizeQuery fallback_sql
                                  (pipeline_options w (page_of rq) (pageSize_of rq)))) = Inr rows
              \<and> w_run_count w (count_query fallback_sql) = Inr tc \<longrightarrow>
                status (POST w srv rq) = 200
              \<and> executed (POST w srv rq)
                  = [sql (optimizeQuery fallback_sql
                            (pipeline_options w (page_of rq) (pageSize_of rq))),
                     count_query fallback_sql]
              \<and> field (body (POST w srv rq)) ''structured_results''
                  = (if rows = [] then None else Some (JArr rows)))
          \<and> POST w srv rq = POST (w\<lparr>w_generate := Inr fallback_sql\<rparr>) srv rq)
       \<and> (\<forall>reply. w_generate w = Inr reply
            \<and> \<not> startsWith (toUpperCase (trim (strip_fences reply))) ''SELECT''
            \<and> \<not> startsWith (toUpperCase (trim (strip_fences reply))) ''WITH'' \<longrightarrow>
            status (POST w srv rq) = 400
          \<and> executed (POST w srv rq) = []
          \<and> field (body (POST w srv rq)) ''error''
               = Some (JStr ''Query failed security validation'')
          \<and> field (body (POST w srv rq)) ''success'' = Some (JBool False)
          \<and> set (cache (responses (after (POST w srv rq)))) \<subseteq> set (cache (responses srv)))"
proof (intro conjI allI impI)
  fix err assume gen: "w_generate w = Inl err"
  have ok: "safe (validateQuerySecurity fallback_sql)" by (simp add: validate_fallback)
  note e = generation_error [OF miss c gen ok]
  from e show "generateSQL w = fallback_sql" by blast
  with ok show "safe (validateQuerySecurity (generateSQL w))" by simp
  from e show "status (POST w srv rq) = 200 \<or> status (POST w srv rq) = 500" by blast
  from e show "executed (POST w srv rq) \<noteq> []" by blast
  from e show "hd (executed (POST w srv rq))
      = sql (optimizeQuery fallback_sql (pipeline_options w (page_of rq) (pageSize_of rq)))"
    by blast
  from generation_error_same [OF gen strip_fences_fallback]
  show "POST w srv rq = POST (w\<lparr>w_generate := Inr fallback_sql\<rparr>) srv rq" .
  {
    assume "status (POST w srv rq) = 200"
    with e show "field (body (POST w srv rq)) ''sql'' = Some (JStr fallback_sql)" by blast
  }
  {
    assume "status (POST w srv rq) = 200"
    with e show "field (body (POST w srv rq)) ''success'' = Some (JBool True)" by blast
  }
  {
    fix rows tc
    assume run: "w_run_query w (sql (optimizeQuery fallback_sql
                      (pipeline_options w (page_of rq) (pageSize_of rq)))) = Inr rows
                 \<and> w_run_count w (count_query fallback_sql) = Inr tc"
    note r = generation_error [OF miss c gen ok, where rows = rows and tc = tc]
    from r run show "status (POST w srv rq) = 200" by blast
    from r run show "executed (POST w srv rq)
        = [sql (optimizeQuery fallback_sql (pipeline_options w (page_of rq) (pageSize_of rq))),
           count_query fallback_sql]" by blast
    from r run show "field (body (POST w srv rq)) ''structured_results''
        = (if rows = [] then None else Some (JArr rows))" by blast
  }
next
  fix reply
  assume a: "w_generate w = Inr reply
     \<and> \<not> startsWith (toUpperCase (trim (strip_fences reply))) ''SELECT''
     \<and> \<not> startsWith (toUpperCase (trim (strip_fences reply))) ''WITH''"
  then have u: "status (POST w srv rq) = 400
     \<and> executed (POST w srv rq) = []
     \<and> field (body (POST w srv rq)) ''error'' = Some (JStr ''Query failed security validation'')
     \<and> field (body (POST w srv rq)) ''success'' = Some (JBool False)
     \<and> set (cache (responses (after (POST w srv rq)))) \<subseteq> set (cache (responses srv))"
    using generation_unusable [OF miss c] by blast
  from u show "status (POST w srv rq) = 400" by blast
  from u show "executed (POST w srv rq) = []" by blast
  from u show "field (body (POST w srv rq)) ''error''
      = Some (JStr ''Query failed security validation'')" by blast
  from u show "field (body (POST w srv rq)) ''success'' = Some (JBool False)" by blast
  from u show "set (cache (responses (after (POST w srv rq)))) \<subseteq> set (cache (responses srv))"
    by blast
qed

text \<open>
  The theorem at the sample request: with a generation call that throws, the request
  succeeds with the fixed query; with a generation that returns prose, it is refused.
\<close>

theorem generation_failure_handling_witness:
  "status (POST generation_throws fresh_server sample_request) = 200
   \<and> field (body (POST generation_throws fresh_server sample_request)) ''sql''
       = Some (JStr fallback_sql)
   \<and> length (executed (POST generation_throws fresh_server sample_request)) = 2
   \<and> status (POST generation_prose fresh_server sample_request) = 400
   \<and> executed (POST generation_prose fresh_server sample_request) = []"
proof -
  have c1: "classifyQuery generation_throws = Structured \<or> classifyQuery generation_throws = Hybrid"
    by (simp add: classify_structured generation_throws_def sample_world_def)
  have c2: "classifyQuery generation_prose = Structured \<or> classifyQuery generation_prose = Hybrid"
    by (simp add: classify_structured generation_prose_def sample_world_def)
  have g1: "w_generate generation_throws = Inl ''429 Too Many Requests''"
    by (simp add: generation_throws_def)
  have r1: "w_run_query generation_throws
              (sql (optimizeQuery fallback_sql (pipeline_options generation_throws
                 (page_of sample_request) (pageSize_of sample_request)))) = Inr [sample_row]
            \<and> w_run_count generation_throws (count_query fallback_sql) = Inr 1"
    by (simp add: generation_throws_def sample_world_def)
  have g2: "w_generate generation_prose = Inr ''I cannot answer that.''
     \<and> \<not> startsWith (toUpperCase (trim (strip_fences ''I cannot answer that.''))) ''SELECT''
     \<and> \<not> startsWith (toUpperCase (trim (strip_fences ''I cannot answer that.''))) ''WITH''"
    by (simp add: generation_prose_def strip_fences_prose prose_not_select)
  from generation_failure_handling [OF sample_cache_missed c1] g1 r1
  have "status (POST generation_throws fresh_server sample_request) = 200
   \<and> field (body (POST generation_throws fresh_server sample_request)) ''sql''
       = Some (JStr fallback_sql)
   \<and> executed (POST generation_throws fresh_server sample_request)
       = [sql (optimizeQuery fallback_sql (pipeline_options generation_throws
                 (page_of sample_request) (pageSize_of sample_request))),
          count_query fallback_sql]"
    by blast
  then have "status (POST generation_throws fresh_server sample_request) = 200
   \<and> field (body (POST generation_throws fresh_server sample_request)) ''sql''
       = Some (JStr fallback_sql)
   \<and> length (executed (POST generation_throws fresh_server sample_request)) = 2"
    by simp
  moreover from generation_failure_handling [OF sample_cache_missed c2] g2
  have "status (POST generation_prose fresh_server sample_request) = 400
   \<and> executed (POST generation_prose fresh_server sample_request) = []"
    by blast
  ultimately show ?thesis by blast
qed

text \<open>
  Against the claim as it is worded: the generation call throws, and the request is
  answered with status 200 and the rows that the fixed query selected from the
  \<open>Document\<close> table; that query, paginated and under a statement timeout, is what the
  database received.
\<close>

theorem generation_failure_handling_counterexample:
  "w_generate generation_throws = Inl ''429 Too Many Requests''
   \<and> status (POST generation_throws fresh_server sample_request) = 200
   \<and> field (body (POST generation_throws fresh_server sample_request)) ''success''
       = Some (JBool True)
   \<and> field (body (POST generation_throws fresh_server sample_request)) ''sql''
       = Some (JStr (''SELECT * FROM '' @ [dquote] @ ''Document'' @ [dquote] @ '' LIMIT 10''))
   \<and> field (body (POST generation_throws fresh_server sample_request)) ''structured_results''
       = Some (JArr [sample_row])
   \<and> executed (POST generation_throws fresh_server sample_request)
       = [''SET LOCAL statement_timeout = 30000; SELECT * FROM '' @ [dquote] @ ''Document''
            @ [dquote] @ [newline] @ ''LIMIT 50 OFFSET 0'',
          ''SELECT COUNT(*) as total FROM (SELECT * FROM '' @ [dquote] @ ''Document'' @ [dquote]
            @ '' LIMIT 10) as subquery'']"
proof -
  have c: "classifyQuery generation_throws = Structured \<or> classifyQuery generation_throws = Hybrid"
    by (simp add: classify_structured generation_throws_def sample_world_def)
  have g: "w_generate generation_throws = Inl ''429 Too Many Requests''"
    by (simp add: generation_throws_def)
  have ok: "safe (validateQuerySecurity fallback_sql)" by (simp add: validate_fallback)
  have r: "w_run_query generation_throws
              (sql (optimizeQuery fallback_sql (pipeline_options generation_throws
                 (page_of sample_request) (pageSize_of sample_request)))) = Inr [sample_row]
            \<and> w_run_count generation_throws (count_query fallback_sql) = Inr 1"
    by (simp add: generation_throws_def sample_world_def)
  have cq: "count_query fallback_sql
      = ''SELECT COUNT(*) as total FROM (SELECT * FROM '' @ [dquote] @ ''Document'' @ [dquote]
            @ '' LIMIT 10) as subquery''"
    by (simp add: count_query_def fallback_sql_def)
  from generation_error [OF sample_cache_missed c g ok, where rows = "[sample_row]" and tc = 1] r g
  show ?thesis
    by (simp add: sample_page fallback_optimized cq) (simp add: fallback_sql_def)
qed

subsection \<open>What a failed document search does to the response\<close>




end
